theory Spec2Isabelle
  imports Complex_Main
begin

section \<open>Python values, dictionaries and exceptions\<close>

text \<open>
  The trainables of \<^verbatim>\<open>nupic/research/frameworks/vernon/run_experiment/trainables.py\<close>
  work on configuration and result dictionaries whose values are arbitrary Python
  objects. Values are a tree datatype; a dictionary is an association list in insertion
  order with string keys. Floats are modelled by reals (no NaN); class objects and other
  opaque objects are \<open>VObj\<close> tokens.
\<close>

datatype val =
    VNone
  | VBool bool
  | VInt int
  | VFloat real
  | VStr string
  | VList "val list"
  | VTuple "val list"
  | VDict "(string \<times> val) list"
  | VObj nat

type_synonym dict = "(string \<times> val) list"

datatype error =
    RuntimeError string
  | IndexError
  | KeyError val
  | TypeError
  | AssertionError
  | AttributeError
  | RayActorError
  | RayTaskError

text \<open>\<^verbatim>\<open>d.get(k, default)\<close>, \<^verbatim>\<open>d[k]\<close>, \<^verbatim>\<open>d[k] = v\<close> and \<^verbatim>\<open>k in d\<close>.\<close>

definition dict_get :: "dict \<Rightarrow> string \<Rightarrow> val \<Rightarrow> val" where
  "dict_get d k dflt = (case map_of d k of None \<Rightarrow> dflt | Some v \<Rightarrow> v)"

definition getitem :: "dict \<Rightarrow> string \<Rightarrow> error + val" where
  "getitem d k = (case map_of d k of None \<Rightarrow> Inl (KeyError (VStr k)) | Some v \<Rightarrow> Inr v)"

fun setitem :: "dict \<Rightarrow> string \<Rightarrow> val \<Rightarrow> dict" where
  "setitem [] k v = [(k, v)]"
| "setitem ((k', v') # d) k v = (if k' = k then (k, v) # d else (k', v') # setitem d k v)"

definition has_key :: "dict \<Rightarrow> string \<Rightarrow> bool" where
  "has_key d k = (map_of d k \<noteq> None)"

text \<open>
  \<^verbatim>\<open>x > 0\<close> for a configuration value: numbers compare (a bool is an int in Python),
  anything else raises TypeError.
\<close>

fun py_gt0 :: "val \<Rightarrow> error + bool" where
  "py_gt0 (VInt i) = Inr (i > 0)"
| "py_gt0 (VFloat f) = Inr (f > 0)"
| "py_gt0 (VBool b) = Inr b"
| "py_gt0 _ = Inl TypeError"

text \<open>The number of iterations of \<^verbatim>\<open>for _ in range(x)\<close>: only ints (and bools) are accepted.\<close>

fun py_range :: "val \<Rightarrow> error + nat" where
  "py_range (VInt i) = Inr (nat i)"
| "py_range (VBool b) = Inr (if b then 1 else 0)"
| "py_range _ = Inl TypeError"

text \<open>Decimal rendering of integers, as \<^verbatim>\<open>str\<close> and f-strings do.\<close>

fun str_nat :: "nat \<Rightarrow> string" where
  "str_nat n = (if n < 10 then [''0123456789'' ! n]
                else str_nat (n div 10) @ [''0123456789'' ! (n mod 10)])"

declare str_nat.simps [simp del]

definition str_int :: "int \<Rightarrow> string" where
  "str_int i = (if i < 0 then CHR ''-'' # str_nat (nat (- i)) else str_nat (nat i))"

text \<open>Whether \<open>p\<close> occurs in \<open>s\<close> as a contiguous substring (\<^verbatim>\<open>p in s\<close> on strings).\<close>

fun is_prefix :: "string \<Rightarrow> string \<Rightarrow> bool" where
  "is_prefix [] s = True"
| "is_prefix (a # p) [] = False"
| "is_prefix (a # p) (b # s) = (a = b \<and> is_prefix p s)"

fun str_contains :: "string \<Rightarrow> string \<Rightarrow> bool" where
  "str_contains [] p = is_prefix p []"
| "str_contains (a # s) p = (is_prefix p (a # s) \<or> str_contains s p)"

section \<open>Remote calls\<close>

text \<open>
  A call \<^verbatim>\<open>w.method.remote(...)\<close> gives an object reference that resolves to a value,
  to a transport-level failure (the actor died: \<^verbatim>\<open>RayActorError\<close>) or to the
  exception the method raised in the actor (\<^verbatim>\<open>RayTaskError\<close>).
\<close>

datatype 'a remote = Value 'a | ActorDied | TaskFailed

fun ray_get :: "'a remote \<Rightarrow> error + 'a" where
  "ray_get (Value v) = Inr v"
| "ray_get ActorDied = Inl RayActorError"
| "ray_get TaskFailed = Inl RayTaskError"

text \<open>\<^verbatim>\<open>ray.get\<close> of a list: the values, or the first error in list order.\<close>

fun ray_get_all :: "'a remote list \<Rightarrow> error + 'a list" where
  "ray_get_all [] = Inr []"
| "ray_get_all (r # rs) =
     (case ray_get r of
        Inl e \<Rightarrow> Inl e
      | Inr v \<Rightarrow> (case ray_get_all rs of Inl e \<Rightarrow> Inl e | Inr vs \<Rightarrow> Inr (v # vs)))"

text \<open>
  \<^verbatim>\<open>ray.util.sgd.utils.check_for_failure\<close>, the library function every batch of calls
  is checked with: it waits for the references one at a time, in completion order, and
  gets each finished one; a \<^verbatim>\<open>RayActorError\<close> makes it return False, any other
  exception propagates, and it returns True once nothing is unfinished. The completion
  order is a parameter: \<open>wait n\<close> picks which of \<open>n\<close> unfinished references finishes next.
\<close>

function check_for_failure :: "(nat \<Rightarrow> nat) \<Rightarrow> 'a remote list \<Rightarrow> error + bool" where
  "check_for_failure wait [] = Inr True"
| "check_for_failure wait (r # rs) =
     (let unfinished = r # rs; i = wait (length unfinished) mod length unfinished in
      case ray_get (unfinished ! i) of
        Inr _ \<Rightarrow> check_for_failure wait (take i unfinished @ drop (Suc i) unfinished)
      | Inl RayActorError \<Rightarrow> Inr False
      | Inl e \<Rightarrow> Inl e)"
  by pat_completeness auto
termination
  by (relation "measure (\<lambda>(wait, rs). length rs)") auto

declare check_for_failure.simps(2) [simp del]

section \<open>Collaborators\<close>

text \<open>
  The object \<^verbatim>\<open>self.sigopt\<close>: an instance of the tuning-service client class, built
  from the experiment id and the tuning configuration block.
\<close>

record sigopt_experiment =
  sigopt_class :: val
  experiment_id :: val
  sigopt_config :: val

text \<open>
  Everything the trainable calls but does not define: the experiment class
  \<^verbatim>\<open>config["experiment_class"]\<close> whose instances run as remote actors with a private
  state \<open>'w\<close>, the ray runtime and the tuning-service client. A remote method returns
  what its reference resolves to and the actor's new state; the getters and
  \<^verbatim>\<open>should_stop\<close> observe the actor without changing it. \<open>exp_new n num_cpus num_gpus\<close>
  is the initial state of the \<open>n\<close>-th actor the runtime creates, so that actors of a
  later attempt may behave differently from those of an earlier one. \<open>is_sigopt_class\<close>
  stands for \<^verbatim>\<open>issubclass(c, SigOptExperiment)\<close>, and the aggregation functions and the
  tuning-service client are taken to return normally. \<open>float_sub\<close> is the subtraction of
  two floats as the machine rounds it: a float is a real here, and the rounding of float
  arithmetic is not computed but taken from the environment.
\<close>

record 'w env =
  exp_new :: "nat \<Rightarrow> val \<Rightarrow> val \<Rightarrow> 'w"
  exp_get_node_ip :: "'w \<Rightarrow> val remote"
  exp_get_free_port :: "'w \<Rightarrow> val remote"
  exp_setup_experiment :: "dict \<Rightarrow> 'w \<Rightarrow> unit remote \<times> 'w"
  exp_pre_experiment :: "'w \<Rightarrow> val remote \<times> 'w"
  exp_run_epoch :: "'w \<Rightarrow> val remote \<times> 'w"
  exp_run_task :: "'w \<Rightarrow> val remote \<times> 'w"
  exp_should_stop :: "'w \<Rightarrow> bool remote"
  exp_get_state :: "'w \<Rightarrow> val remote"
  exp_set_state :: "val \<Rightarrow> 'w \<Rightarrow> unit remote \<times> 'w"
  exp_get_current_epoch :: "'w \<Rightarrow> int remote"
  aggregate_results :: "val list \<Rightarrow> dict"
  aggregate_pre_experiment_results :: "val list \<Rightarrow> val"
  ray_wait :: "nat \<Rightarrow> nat"
  py_repr :: "val \<Rightarrow> string"
  float_sub :: "real \<Rightarrow> real \<Rightarrow> real"
  is_sigopt_class :: "val \<Rightarrow> bool"
  get_next_suggestion :: "sigopt_experiment \<Rightarrow> val"
  update_config_with_suggestion :: "sigopt_experiment \<Rightarrow> dict \<Rightarrow> val \<Rightarrow> dict"

text \<open>\<^verbatim>\<open>str(v)\<close> as \<^verbatim>\<open>"{}".format(v)\<close> renders it; floats and containers are left to the environment.\<close>

fun py_str :: "'w env \<Rightarrow> val \<Rightarrow> string" where
  "py_str env (VStr s) = s"
| "py_str env (VInt i) = str_int i"
| "py_str env VNone = ''None''"
| "py_str env (VBool b) = (if b then ''True'' else ''False'')"
| "py_str env v = py_repr env v"

section \<open>The trainable\<close>

datatype remote_method =
    GetNodeIp | GetFreePort | SetupExperiment dict | PreExperiment | RunEpoch | RunTask
  | ShouldStop | GetState | SetState val | GetCurrentEpoch

text \<open>
  What the driver does to the outside world, in order: actors created, remote calls
  dispatched, actors killed, seconds slept, observations reported to the tuning service.
\<close>

datatype event =
    Spawn nat
  | Call nat remote_method
  | Kill nat
  | Sleep nat
  | UpdateObservation val "dict list"

record 'w handle =
  actor_id :: nat
  wstate :: 'w

datatype variant = Supervised | ContinualLearning | SigOptSupervised

text \<open>
  The attributes of a trainable object. \<open>heap\<close> holds the dictionaries that are passed
  by reference (an address is an index); nested values are held by value, so a fresh
  object with the same contents is a deep copy.
\<close>

record 'w trainable =
  cls :: variant
  trial_name :: string
  iteration :: int
  max_retries :: int
  restore_checkpoint_file :: val
  restored :: bool
  first_run :: bool
  procs :: "'w handle list"
  next_actor :: nat
  heap :: "dict list"
  events :: "event list"
  sigopt :: "sigopt_experiment option"
  suggestion :: val
  epochs :: val
  metric_names :: "val list"

definition RESULT_DUPLICATE :: string where
  "RESULT_DUPLICATE = ''__duplicate__''"

definition DONE :: string where
  "DONE = ''done''"

definition emit :: "event \<Rightarrow> 'w trainable \<Rightarrow> 'w trainable" where
  "emit e st = st\<lparr>events := events st @ [e]\<rparr>"

subsection \<open>Destroying the pool and polling the stop condition\<close>

definition kill_workers :: "'w trainable \<Rightarrow> 'w trainable" where
  "kill_workers st =
     st\<lparr>events := events st @ map (\<lambda>w. Kill (actor_id w)) (procs st), procs := []\<rparr>"

definition should_stop :: "'w env \<Rightarrow> 'w trainable \<Rightarrow> (error + bool) \<times> 'w trainable" where
  "should_stop env st =
     (case procs st of
        [] \<Rightarrow> (Inl IndexError, st)
      | w # _ \<Rightarrow>
          (let stop_status = exp_should_stop env (wstate w);
               st1 = emit (Call (actor_id w) ShouldStop) st
           in (case check_for_failure (ray_wait env) [stop_status] of
                 Inl e \<Rightarrow> (Inl e, st1)
               | Inr True \<Rightarrow> (case ray_get stop_status of
                                Inl e \<Rightarrow> (Inl e, st1)
                              | Inr b \<Rightarrow> (Inr b, st1))
               | Inr False \<Rightarrow> (Inr True, st1))))"

subsection \<open>Checkpoint and restore\<close>

text \<open>Dispatching one method to every worker of the pool, in pool order.\<close>

definition dispatch_all ::
  "('w \<Rightarrow> 'a remote \<times> 'w) \<Rightarrow> remote_method \<Rightarrow> 'w trainable \<Rightarrow> 'a remote list \<times> 'w trainable" where
  "dispatch_all f m st =
     (map (\<lambda>w. fst (f (wstate w))) (procs st),
      st\<lparr>procs := map (\<lambda>w. w\<lparr>wstate := snd (f (wstate w))\<rparr>) (procs st),
         events := events st @ map (\<lambda>w. Call (actor_id w) m) (procs st)\<rparr>)"

definition save :: "'w env \<Rightarrow> 'w trainable \<Rightarrow> (error + val) \<times> 'w trainable" where
  "save env st =
     (case procs st of
        [] \<Rightarrow> (Inl IndexError, st)
      | w # _ \<Rightarrow> (ray_get (exp_get_state env (wstate w)), emit (Call (actor_id w) GetState) st))"

definition restore :: "'w env \<Rightarrow> val \<Rightarrow> 'w trainable \<Rightarrow> (error + unit) \<times> 'w trainable" where
  "restore env state st =
     (let (status, st1) = dispatch_all (exp_set_state env state) (SetState state) st in
      (case ray_get_all status of
         Inl e \<Rightarrow> (Inl e, st1)
       | Inr _ \<Rightarrow>
           (case procs st1 of
              [] \<Rightarrow> (Inl IndexError, st1)
            | w # _ \<Rightarrow>
                (let st2 = emit (Call (actor_id w) GetCurrentEpoch) st1 in
                 (case ray_get (exp_get_current_epoch env (wstate w)) of
                    Inl e \<Rightarrow> (Inl e, st2)
                  | Inr epoch \<Rightarrow> (Inr (), st2\<lparr>iteration := epoch\<rparr>))))))"

subsection \<open>Configuration hook\<close>

text \<open>
  Membership, subscripting and iteration on a value whose type is not known:
  \<^verbatim>\<open>k in x\<close>, \<^verbatim>\<open>x[k]\<close> with a string key, and \<^verbatim>\<open>for m in x\<close>.
\<close>

fun py_in :: "string \<Rightarrow> val \<Rightarrow> error + bool" where
  "py_in k (VDict d) = Inr (has_key d k)"
| "py_in k (VList l) = Inr (VStr k \<in> set l)"
| "py_in k (VTuple l) = Inr (VStr k \<in> set l)"
| "py_in k (VStr s) = Inr (str_contains s k)"
| "py_in k _ = Inl TypeError"

fun py_getitem :: "val \<Rightarrow> string \<Rightarrow> error + val" where
  "py_getitem (VDict d) k = getitem d k"
| "py_getitem _ k = Inl TypeError"

fun py_iter :: "val \<Rightarrow> error + val list" where
  "py_iter (VList l) = Inr l"
| "py_iter (VTuple l) = Inr l"
| "py_iter (VDict d) = Inr (map (\<lambda>kv. VStr (fst kv)) d)"
| "py_iter (VStr s) = Inr (map (\<lambda>c. VStr [c]) s)"
| "py_iter _ = Inl TypeError"

text \<open>\<^verbatim>\<open>[metric["name"] for metric in metrics]\<close>\<close>

fun metric_name_list :: "val list \<Rightarrow> error + val list" where
  "metric_name_list [] = Inr []"
| "metric_name_list (metric # metrics) =
     (case py_getitem metric ''name'' of
        Inl e \<Rightarrow> Inl e
      | Inr n \<Rightarrow> (case metric_name_list metrics of
                    Inl e \<Rightarrow> Inl e
                  | Inr ns \<Rightarrow> Inr (n # ns)))"

definition SigOptExperiment :: val where
  "SigOptExperiment = VObj 0"

text \<open>
  \<^verbatim>\<open>SigOptSupervisedTrainable._process_config\<close>: with a tuning block in the
  configuration, build the client, take one suggestion, let the client rewrite the
  configuration object in place, and record the epoch total and the metric names.
\<close>

definition sigopt_process_config ::
  "'w env \<Rightarrow> nat \<Rightarrow> 'w trainable \<Rightarrow> (error + unit) \<times> 'w trainable" where
  "sigopt_process_config env config st =
     (let st0 = st\<lparr>sigopt := None\<rparr> in
      if has_key (heap st0 ! config) ''sigopt_config'' then
        (if dict_get (heap st0 ! config) ''sigopt_experiment_id'' VNone = VNone
         then (Inl AssertionError, st0)
         else
          (let experiment_class =
                 dict_get (heap st0 ! config) ''sigopt_experiment_class'' SigOptExperiment in
           if \<not> is_sigopt_class env experiment_class then (Inl AssertionError, st0)
           else
            (let sg = \<lparr>sigopt_class = experiment_class,
                       experiment_id = dict_get (heap st0 ! config) ''sigopt_experiment_id'' VNone,
                       sigopt_config = dict_get (heap st0 ! config) ''sigopt_config'' VNone\<rparr>;
                 st1 = st0\<lparr>sigopt := Some sg\<rparr>;
                 st2 = st1\<lparr>suggestion := get_next_suggestion env sg\<rparr>;
                 st3 = st2\<lparr>heap := (heap st2)
                          [config := update_config_with_suggestion env sg (heap st2 ! config)
                                       (suggestion st2)]\<rparr>
             in (case getitem (heap st3 ! config) ''epochs'' of
                   Inl e \<Rightarrow> (Inl e, st3)
                 | Inr ep \<Rightarrow>
                     (let st4 = st3\<lparr>epochs := ep\<rparr> in
                      (case getitem (heap st4 ! config) ''sigopt_config'' of
                         Inl e \<Rightarrow> (Inl e, st4)
                       | Inr sc \<Rightarrow>
                           (case py_in ''metrics'' sc of
                              Inl e \<Rightarrow> (Inl e, st4)
                            | Inr False \<Rightarrow> (Inl AssertionError, st4)
                            | Inr True \<Rightarrow>
                                (case py_getitem sc ''metrics'' of
                                   Inl e \<Rightarrow> (Inl e, st4)
                                 | Inr ms \<Rightarrow>
                                     (case py_iter ms of
                                        Inl e \<Rightarrow> (Inl e, st4)
                                      | Inr ml \<Rightarrow>
                                          (case metric_name_list ml of
                                             Inl e \<Rightarrow> (Inl e, st4)
                                           | Inr names \<Rightarrow>
                                               (let st5 = st4\<lparr>metric_names := names\<rparr> in
                                                if VStr ''mean_accuracy'' \<in> set names
                                                then (Inr (), st5)
                                                else (Inl AssertionError, st5))))))))))))
      else (Inr (), st0))"

text \<open>\<^verbatim>\<open>_process_config\<close> by class: the base class does nothing.\<close>

definition process_config ::
  "'w env \<Rightarrow> nat \<Rightarrow> 'w trainable \<Rightarrow> (error + unit) \<times> 'w trainable" where
  "process_config env config st =
     (case cls st of
        SigOptSupervised \<Rightarrow> sigopt_process_config env config st
      | _ \<Rightarrow> (Inr (), st))"

subsection \<open>Creating the pool\<close>

text \<open>\<^verbatim>\<open>self.procs.append(experiment.remote())\<close>: one new actor, with the next free id.\<close>

definition spawn :: "'w env \<Rightarrow> val \<Rightarrow> val \<Rightarrow> 'w trainable \<Rightarrow> 'w trainable" where
  "spawn env num_cpus num_gpus st =
     st\<lparr>procs := procs st @
                 [\<lparr>actor_id = next_actor st,
                   wstate = exp_new env (next_actor st) num_cpus num_gpus\<rparr>],
        next_actor := Suc (next_actor st),
        events := events st @ [Spawn (next_actor st)]\<rparr>"

fun spawn_all :: "'w env \<Rightarrow> val \<Rightarrow> val \<Rightarrow> nat \<Rightarrow> 'w trainable \<Rightarrow> 'w trainable" where
  "spawn_all env num_cpus num_gpus 0 st = st"
| "spawn_all env num_cpus num_gpus (Suc n) st =
     spawn_all env num_cpus num_gpus n (spawn env num_cpus num_gpus st)"

text \<open>\<^verbatim>\<open>copy.deepcopy(config)\<close> allocates a new object; \<^verbatim>\<open>d[k] = v\<close> writes through an address.\<close>

definition deepcopy :: "nat \<Rightarrow> 'w trainable \<Rightarrow> nat \<times> 'w trainable" where
  "deepcopy a st = (length (heap st), st\<lparr>heap := heap st @ [heap st ! a]\<rparr>)"

definition heap_setitem :: "nat \<Rightarrow> string \<Rightarrow> val \<Rightarrow> 'w trainable \<Rightarrow> 'w trainable" where
  "heap_setitem a k v st = st\<lparr>heap := (heap st)[a := setitem (heap st ! a) k v]\<rparr>"

text \<open>One round of the loop \<^verbatim>\<open>for rank, w in enumerate(self.procs)\<close>.\<close>

definition configure_worker ::
  "'w env \<Rightarrow> nat \<Rightarrow> string \<Rightarrow> val \<Rightarrow> nat \<Rightarrow> 'w trainable \<Rightarrow> unit remote \<times> 'w trainable" where
  "configure_worker env config dist_url world_size rank st =
     (let (worker_config, st1) = deepcopy config st;
          st2 = heap_setitem worker_config ''distributed'' (VBool True) st1;
          st3 = heap_setitem worker_config ''dist_url'' (VStr dist_url) st2;
          st4 = heap_setitem worker_config ''world_size'' world_size st3;
          st5 = heap_setitem worker_config ''rank'' (VInt (int rank)) st4;
          w = procs st5 ! rank;
          sent = heap st5 ! worker_config;
          st6 = emit (Call (actor_id w) (SetupExperiment sent)) st5
      in (fst (exp_setup_experiment env sent (wstate w)),
          st6\<lparr>procs := (procs st6)
                 [rank := w\<lparr>wstate := snd (exp_setup_experiment env sent (wstate w))\<rparr>]\<rparr>))"

fun configure_all ::
  "'w env \<Rightarrow> nat \<Rightarrow> string \<Rightarrow> val \<Rightarrow> nat list \<Rightarrow> unit remote list \<Rightarrow> 'w trainable
     \<Rightarrow> unit remote list \<times> 'w trainable" where
  "configure_all env config dist_url world_size [] status st = (status, st)"
| "configure_all env config dist_url world_size (rank # ranks) status st =
     (let (r, st') = configure_worker env config dist_url world_size rank st
      in configure_all env config dist_url world_size ranks (status @ [r]) st')"

text \<open>
  The body of the retry loop up to the failure check: a fresh pool, the rendezvous
  address from the first process, one configuration copy per process. The result is
  what \<^verbatim>\<open>check_for_failure(status)\<close> says, or the exception that ended the attempt.
\<close>

definition create_attempt ::
  "'w env \<Rightarrow> nat \<Rightarrow> val \<Rightarrow> val \<Rightarrow> val \<Rightarrow> 'w trainable \<Rightarrow> (error + bool) \<times> 'w trainable" where
  "create_attempt env config world_size num_cpus num_gpus st =
     (let st1 = st\<lparr>procs := []\<rparr> in
      (case py_range world_size of
         Inl e \<Rightarrow> (Inl e, st1)
       | Inr n \<Rightarrow>
           (let st2 = spawn_all env num_cpus num_gpus n st1 in
            (case procs st2 of
               [] \<Rightarrow> (Inl IndexError, st2)
             | w0 # _ \<Rightarrow>
                 (let st3 = emit (Call (actor_id w0) GetNodeIp) st2 in
                  (case ray_get (exp_get_node_ip env (wstate w0)) of
                     Inl e \<Rightarrow> (Inl e, st3)
                   | Inr ip \<Rightarrow>
                       (let st4 = emit (Call (actor_id w0) GetFreePort) st3 in
                        (case ray_get (exp_get_free_port env (wstate w0)) of
                           Inl e \<Rightarrow> (Inl e, st4)
                         | Inr port0 \<Rightarrow>
                             (let port = dict_get (heap st4 ! config) ''dist_port'' port0;
                                  dist_url = ''tcp://'' @ py_str env ip @ '':'' @ py_str env port;
                                  (status, st5) =
                                     configure_all env config dist_url world_size
                                       [0..<length (procs st4)] [] st4
                              in (check_for_failure (ray_wait env) status, st5))))))))))"

text \<open>
  \<^verbatim>\<open>for i in range(1 + self.max_retries): ... else: raise\<close>, with \<open>n\<close> rounds left and
  \<open>i\<close> the loop variable.
\<close>

fun create_loop ::
  "'w env \<Rightarrow> nat \<Rightarrow> val \<Rightarrow> val \<Rightarrow> val \<Rightarrow> nat \<Rightarrow> nat \<Rightarrow> 'w trainable
     \<Rightarrow> (error + unit) \<times> 'w trainable" where
  "create_loop env config world_size num_cpus num_gpus i 0 st =
     (Inl (RuntimeError (''Failed to create workers after '' @ str_int (max_retries st)
                          @ '' retries'')), st)"
| "create_loop env config world_size num_cpus num_gpus i (Suc n) st =
     (case create_attempt env config world_size num_cpus num_gpus st of
        (Inl e, st') \<Rightarrow> (Inl e, st')
      | (Inr True, st') \<Rightarrow> (Inr (), st')
      | (Inr False, st') \<Rightarrow>
          create_loop env config world_size num_cpus num_gpus (Suc i) n
            (emit (Sleep (2 ^ i)) (kill_workers st')))"

text \<open>The size of the process group and the resources of one process.\<close>

definition pool_shape :: "dict \<Rightarrow> error + (val \<times> val \<times> val)" where
  "pool_shape cfg =
     (let num_gpus = dict_get cfg ''num_gpus'' (VInt 0);
          num_cpus = dict_get cfg ''num_cpus'' (VInt 1)
      in (case py_gt0 num_gpus of
            Inl e \<Rightarrow> Inl e
          | Inr True \<Rightarrow> Inr (num_gpus, dict_get cfg ''workers'' (VInt 0), VInt 1)
          | Inr False \<Rightarrow> Inr (num_cpus, VInt 1, num_gpus)))"

definition create_workers ::
  "'w env \<Rightarrow> nat \<Rightarrow> 'w trainable \<Rightarrow> (error + unit) \<times> 'w trainable" where
  "create_workers env config st =
     (case pool_shape (heap st ! config) of
        Inl e \<Rightarrow> (Inl e, st)
      | Inr (world_size, num_cpus, num_gpus) \<Rightarrow>
          (case process_config env config st of
             (Inl e, st1) \<Rightarrow> (Inl e, st1)
           | (Inr _, st1) \<Rightarrow>
               create_loop env config world_size num_cpus num_gpus 0
                 (nat (1 + max_retries st1)) st1))"

subsection \<open>One iteration\<close>

text \<open>
  \<^verbatim>\<open>_run_iteration\<close>: one epoch (one task for the continual-learning class) on every
  process; None when the failure check says a worker died.
\<close>

definition run_iteration ::
  "'w env \<Rightarrow> 'w trainable \<Rightarrow> (error + val list option) \<times> 'w trainable" where
  "run_iteration env st =
     (let (status, st1) =
            (case cls st of
               ContinualLearning \<Rightarrow> dispatch_all (exp_run_task env) RunTask st
             | _ \<Rightarrow> dispatch_all (exp_run_epoch env) RunEpoch st)
      in (case check_for_failure (ray_wait env) status of
            Inl e \<Rightarrow> (Inl e, st1)
          | Inr True \<Rightarrow> (case ray_get_all status of
                           Inl e \<Rightarrow> (Inl e, st1)
                         | Inr results \<Rightarrow> (Inr (Some results), st1))
          | Inr False \<Rightarrow> (Inr None, st1)))"

text \<open>
  \<^verbatim>\<open>SupervisedTrainable._process_result\<close>:
  \<^verbatim>\<open>result["extra_val_results"].insert(0, (0, pre_experiment_result))\<close> when there is a
  pre-experiment result.
\<close>

definition supervised_process_result :: "dict \<Rightarrow> val \<Rightarrow> error + dict" where
  "supervised_process_result result pre_experiment_result =
     (if pre_experiment_result \<noteq> VNone then
        (case getitem result ''extra_val_results'' of
           Inl e \<Rightarrow> Inl e
         | Inr (VList l) \<Rightarrow>
             Inr (setitem result ''extra_val_results''
                    (VList (VTuple [VInt 0, pre_experiment_result] # l)))
         | Inr _ \<Rightarrow> Inl AttributeError)
      else Inr result)"

text \<open>
  \<^verbatim>\<open>self.iteration >= self.epochs - 1\<close> for the int \<open>it\<close>: integer arithmetic when the
  epoch total is an int (a bool is an int); when it is a float, the rounded float
  subtraction and then the comparison of an int with a float, which Python decides
  exactly; TypeError for anything else.
\<close>

fun last_epoch_reached :: "'w env \<Rightarrow> int \<Rightarrow> val \<Rightarrow> error + bool" where
  "last_epoch_reached env it (VInt e) = Inr (e - 1 \<le> it)"
| "last_epoch_reached env it (VBool b) = Inr ((if b then 1 else 0) - 1 \<le> it)"
| "last_epoch_reached env it (VFloat f) = Inr (float_sub env f 1 \<le> of_int it)"
| "last_epoch_reached env it _ = Inl TypeError"

text \<open>\<^verbatim>\<open>result[name]\<close> for any key object.\<close>

fun getitem_val :: "dict \<Rightarrow> val \<Rightarrow> error + val" where
  "getitem_val d (VStr k) = getitem d k"
| "getitem_val d (VList l) = Inl TypeError"
| "getitem_val d (VDict l) = Inl TypeError"
| "getitem_val d k = Inl (KeyError k)"

text \<open>\<^verbatim>\<open>[dict(name=name, value=result[name]) for name in self.metric_names]\<close>\<close>

fun observation_values :: "dict \<Rightarrow> val list \<Rightarrow> error + dict list" where
  "observation_values result [] = Inr []"
| "observation_values result (name # names) =
     (case getitem_val result name of
        Inl e \<Rightarrow> Inl e
      | Inr v \<Rightarrow> (case observation_values result names of
                    Inl e \<Rightarrow> Inl e
                  | Inr vs \<Rightarrow> Inr ([(''name'', name), (''value'', v)] # vs)))"

text \<open>
  \<^verbatim>\<open>SigOptSupervisedTrainable._process_result\<close>: after the inherited step, once the
  last configured epoch is reached the result is flagged and, with a positive accuracy,
  the metric values are reported to the tuning service.
\<close>

definition sigopt_process_result ::
  "'w env \<Rightarrow> dict \<Rightarrow> val \<Rightarrow> 'w trainable \<Rightarrow> (error + dict) \<times> 'w trainable" where
  "sigopt_process_result env result pre_experiment_result st =
     (case supervised_process_result result pre_experiment_result of
        Inl e \<Rightarrow> (Inl e, st)
      | Inr result1 \<Rightarrow>
          (if sigopt st \<noteq> None then
             (let result2 = setitem result1 ''early_stop''
                              (dict_get result1 ''early_stop'' (VFloat 0)) in
              (case last_epoch_reached env (iteration st) (epochs st) of
                 Inl e \<Rightarrow> (Inl e, st)
               | Inr False \<Rightarrow> (Inr result2, st)
               | Inr True \<Rightarrow>
                   (let result3 = setitem result2 ''early_stop'' (VFloat 1) in
                    (case getitem result3 ''mean_accuracy'' of
                       Inl e \<Rightarrow> (Inl e, st)
                     | Inr acc \<Rightarrow>
                         (case py_gt0 acc of
                            Inl e \<Rightarrow> (Inl e, st)
                          | Inr False \<Rightarrow> (Inr result3, st)
                          | Inr True \<Rightarrow>
                              (case observation_values result3 (metric_names st) of
                                 Inl e \<Rightarrow> (Inl e, st)
                               | Inr values \<Rightarrow>
                                   (Inr result3,
                                    emit (UpdateObservation (suggestion st) values) st)))))))
           else (Inr result1, st)))"

definition process_result ::
  "'w env \<Rightarrow> dict \<Rightarrow> val \<Rightarrow> 'w trainable \<Rightarrow> (error + dict) \<times> 'w trainable" where
  "process_result env result pre_experiment_result st =
     (case cls st of
        SigOptSupervised \<Rightarrow> sigopt_process_result env result pre_experiment_result st
      | _ \<Rightarrow> (supervised_process_result result pre_experiment_result, st))"

text \<open>
  The first-run block of \<^verbatim>\<open>_train\<close>. It ends \<^verbatim>\<open>_train\<close> with the duplicate record
  (\<open>Inr (Inl d)\<close>), or goes on with the pre-experiment result (\<open>Inr (Inr pre)\<close>, \<open>VNone\<close>
  when there is none), or raises.
\<close>

definition first_run_block ::
  "'w env \<Rightarrow> 'w trainable \<Rightarrow> (error + (dict + val)) \<times> 'w trainable" where
  "first_run_block env st =
     (if first_run st then
        (let st1 = st\<lparr>first_run := False\<rparr> in
         (case (if restored st1 then should_stop env st1 else (Inr False, st1)) of
            (Inl e, st2) \<Rightarrow> (Inl e, st2)
          | (Inr True, st2) \<Rightarrow>
              (Inr (Inl [(RESULT_DUPLICATE, VBool True), (DONE, VBool True)]), st2)
          | (Inr False, st2) \<Rightarrow>
              (if iteration st2 = 0 then
                 (let (status, st3) = dispatch_all (exp_pre_experiment env) PreExperiment st2 in
                  (case check_for_failure (ray_wait env) status of
                     Inl e \<Rightarrow> (Inl e, st3)
                   | Inr True \<Rightarrow>
                       (case ray_get_all status of
                          Inl e \<Rightarrow> (Inl e, st3)
                        | Inr results \<Rightarrow>
                            (Inr (Inr (aggregate_pre_experiment_results env results)), st3))
                   | Inr False \<Rightarrow> (Inr (Inr VNone), st3)))
               else (Inr (Inr VNone), st2))))
      else (Inr (Inr VNone), st))"

text \<open>
  The rest of the \<^verbatim>\<open>try\<close> block of \<^verbatim>\<open>_train\<close>: run the iteration, aggregate,
  post-process, poll the stop condition.
\<close>

definition iteration_block ::
  "'w env \<Rightarrow> val \<Rightarrow> 'w trainable \<Rightarrow> (error + dict) \<times> 'w trainable" where
  "iteration_block env pre_experiment_result st1 =
     (case run_iteration env st1 of
        (Inl e, st2) \<Rightarrow> (Inl e, st2)
      | (Inr None, st2) \<Rightarrow>
          (Inl (RuntimeError (trial_name st2 @ ''('' @ str_int (iteration st2) @ ''): ''
                              @ ''One of the remote workers failed during training'')),
           st2)
      | (Inr (Some results), st2) \<Rightarrow>
          (case process_result env (aggregate_results env results) pre_experiment_result st2 of
             (Inl e, st3) \<Rightarrow> (Inl e, st3)
           | (Inr ret, st3) \<Rightarrow>
               (case should_stop env st3 of
                  (Inl e, st4) \<Rightarrow> (Inl e, st4)
                | (Inr b, st4) \<Rightarrow> (Inr (setitem ret DONE (VBool b)), st4))))"

definition train_body :: "'w env \<Rightarrow> 'w trainable \<Rightarrow> (error + dict) \<times> 'w trainable" where
  "train_body env st =
     (case first_run_block env st of
        (Inl e, st1) \<Rightarrow> (Inl e, st1)
      | (Inr (Inl duplicate), st1) \<Rightarrow> (Inr duplicate, st1)
      | (Inr (Inr pre_experiment_result), st1) \<Rightarrow>
          iteration_block env pre_experiment_result st1)"

text \<open>\<^verbatim>\<open>_train\<close>: any exception kills the workers and is raised again.\<close>

definition train :: "'w env \<Rightarrow> 'w trainable \<Rightarrow> (error + dict) \<times> 'w trainable" where
  "train env st =
     (case train_body env st of
        (Inl e, st') \<Rightarrow> (Inl e, kill_workers st')
      | (Inr ret, st') \<Rightarrow> (Inr ret, st'))"

section \<open>Observations used in the statements\<close>

text \<open>
  The responses of the pool to the pre-experiment call and to the unit of work, were
  they dispatched in state \<open>st\<close>.
\<close>

definition pre_experiment_status :: "'w env \<Rightarrow> 'w trainable \<Rightarrow> val remote list" where
  "pre_experiment_status env st = map (\<lambda>w. fst (exp_pre_experiment env (wstate w))) (procs st)"

definition work_status :: "'w env \<Rightarrow> 'w trainable \<Rightarrow> val remote list" where
  "work_status env st =
     (case cls st of
        ContinualLearning \<Rightarrow> map (\<lambda>w. fst (exp_run_task env (wstate w))) (procs st)
      | _ \<Rightarrow> map (\<lambda>w. fst (exp_run_epoch env (wstate w))) (procs st))"

text \<open>The remote method that is the unit of work of a class.\<close>

definition work_method :: "variant \<Rightarrow> remote_method" where
  "work_method c = (case c of ContinualLearning \<Rightarrow> RunTask | _ \<Rightarrow> RunEpoch)"

text \<open>
  The stop flag a poll of the coordinator stands for: its answer, True when the poll
  fails at the transport level, none when the remote method raised.
\<close>

fun stop_flag :: "bool remote \<Rightarrow> bool option" where
  "stop_flag (Value b) = Some b"
| "stop_flag ActorDied = Some True"
| "stop_flag TaskFailed = None"

text \<open>The events a run added to the trace, and the sleeps among them.\<close>

definition new_events :: "'w trainable \<Rightarrow> 'w trainable \<Rightarrow> event list" where
  "new_events st st' = drop (length (events st)) (events st')"

fun sleeps_of :: "event list \<Rightarrow> nat list" where
  "sleeps_of [] = []"
| "sleeps_of (Sleep n # es) = n # sleeps_of es"
| "sleeps_of (_ # es) = sleeps_of es"

text \<open>
  The pool-creation loop seen from outside. An attempt whose first actor has id \<open>base\<close>,
  made for the configuration \<open>cfg\<close>: the configuration sent to the process of a rank,
  the rendezvous URL, the responses to the setup calls, the outcome of the attempt (what
  the failure check says, or the exception), and the trace and the pool it leaves.
\<close>

definition worker_config :: "dict \<Rightarrow> string \<Rightarrow> val \<Rightarrow> nat \<Rightarrow> dict" where
  "worker_config cfg dist_url world_size rank =
     setitem (setitem (setitem (setitem cfg ''distributed'' (VBool True))
                         ''dist_url'' (VStr dist_url))
                ''world_size'' world_size)
       ''rank'' (VInt (int rank))"

definition attempt_url :: "'w env \<Rightarrow> dict \<Rightarrow> val \<Rightarrow> val \<Rightarrow> nat \<Rightarrow> error + string" where
  "attempt_url env cfg num_cpus num_gpus base =
     (case ray_get (exp_get_node_ip env (exp_new env base num_cpus num_gpus)) of
        Inl e \<Rightarrow> Inl e
      | Inr ip \<Rightarrow>
          (case ray_get (exp_get_free_port env (exp_new env base num_cpus num_gpus)) of
             Inl e \<Rightarrow> Inl e
           | Inr port0 \<Rightarrow>
               Inr (''tcp://'' @ py_str env ip @ '':''
                    @ py_str env (dict_get cfg ''dist_port'' port0))))"

definition setup_status ::
  "'w env \<Rightarrow> dict \<Rightarrow> val \<Rightarrow> val \<Rightarrow> val \<Rightarrow> nat \<Rightarrow> nat \<Rightarrow> string \<Rightarrow> unit remote list" where
  "setup_status env cfg world_size num_cpus num_gpus n base url =
     map (\<lambda>rank. fst (exp_setup_experiment env (worker_config cfg url world_size rank)
                        (exp_new env (base + rank) num_cpus num_gpus)))
       [0..<n]"

definition attempt_result ::
  "'w env \<Rightarrow> dict \<Rightarrow> val \<Rightarrow> val \<Rightarrow> val \<Rightarrow> nat \<Rightarrow> error + bool" where
  "attempt_result env cfg world_size num_cpus num_gpus base =
     (case py_range world_size of
        Inl e \<Rightarrow> Inl e
      | Inr n \<Rightarrow>
          if n = 0 then Inl IndexError
          else (case attempt_url env cfg num_cpus num_gpus base of
                  Inl e \<Rightarrow> Inl e
                | Inr url \<Rightarrow>
                    check_for_failure (ray_wait env)
                      (setup_status env cfg world_size num_cpus num_gpus n base url)))"

definition attempt_events ::
  "'w env \<Rightarrow> dict \<Rightarrow> val \<Rightarrow> val \<Rightarrow> val \<Rightarrow> nat \<Rightarrow> nat \<Rightarrow> event list" where
  "attempt_events env cfg world_size num_cpus num_gpus n base =
     map (\<lambda>i. Spawn (base + i)) [0..<n] @
     (if n = 0 then []
      else Call base GetNodeIp #
        (case ray_get (exp_get_node_ip env (exp_new env base num_cpus num_gpus)) of
           Inl e \<Rightarrow> []
         | Inr ip \<Rightarrow>
             Call base GetFreePort #
               (case attempt_url env cfg num_cpus num_gpus base of
                  Inl e \<Rightarrow> []
                | Inr url \<Rightarrow>
                    map (\<lambda>rank. Call (base + rank)
                                  (SetupExperiment (worker_config cfg url world_size rank)))
                      [0..<n])))"

definition attempt_pool ::
  "'w env \<Rightarrow> dict \<Rightarrow> val \<Rightarrow> val \<Rightarrow> val \<Rightarrow> nat \<Rightarrow> nat \<Rightarrow> string \<Rightarrow> 'w handle list" where
  "attempt_pool env cfg world_size num_cpus num_gpus n base url =
     map (\<lambda>rank. \<lparr>actor_id = base + rank,
                  wstate = snd (exp_setup_experiment env (worker_config cfg url world_size rank)
                                  (exp_new env (base + rank) num_cpus num_gpus))\<rparr>)
       [0..<n]"

text \<open>
  A failed round with loop variable \<open>i\<close>: the attempt, every process of the pool killed,
  the backoff sleep.
\<close>

definition failed_round_events ::
  "'w env \<Rightarrow> dict \<Rightarrow> val \<Rightarrow> val \<Rightarrow> val \<Rightarrow> nat \<Rightarrow> nat \<Rightarrow> nat \<Rightarrow> event list" where
  "failed_round_events env cfg world_size num_cpus num_gpus n base i =
     attempt_events env cfg world_size num_cpus num_gpus n base
     @ map (\<lambda>rank. Kill (base + rank)) [0..<n]
     @ [Sleep (2 ^ i)]"

text \<open>The configuration most recently sent to an actor with a setup call.\<close>

fun last_setup :: "event list \<Rightarrow> nat \<Rightarrow> dict option" where
  "last_setup [] a = None"
| "last_setup (e # es) a =
     (case last_setup es a of
        Some d \<Rightarrow> Some d
      | None \<Rightarrow> (case e of
                   Call b (SetupExperiment d) \<Rightarrow> if a = b then Some d else None
                 | _ \<Rightarrow> None))"

text \<open>The world size as the configuration gives it.\<close>

definition world_size_of :: "dict \<Rightarrow> val" where
  "world_size_of cfg =
     (if py_gt0 (dict_get cfg ''num_gpus'' (VInt 0)) = Inr True
      then dict_get cfg ''num_gpus'' (VInt 0)
      else dict_get cfg ''num_cpus'' (VInt 1))"

text \<open>\<^verbatim>\<open>restore(checkpoint())\<close> with nothing in between.\<close>

definition restore_checkpoint :: "'w env \<Rightarrow> 'w trainable \<Rightarrow> (error + unit) \<times> 'w trainable" where
  "restore_checkpoint env st =
     (case save env st of
        (Inl e, st1) \<Rightarrow> (Inl e, st1)
      | (Inr blob, st1) \<Rightarrow> restore env blob st1)"

section \<open>A small simulated cluster\<close>

text \<open>
  An experiment class whose worker state is a counter: actor \<open>n\<close> starts at \<open>n\<close>, an
  epoch increments the counter, the snapshot is the counter, and the experiment is over
  at 10. The first two actors ever created die during setup. Its float subtraction is
  the exact one, which is what the machine computes on the small values used here.
\<close>

definition sim_env :: "nat env" where
  "sim_env =
     \<lparr>exp_new = (\<lambda>n num_cpus num_gpus. n),
      exp_get_node_ip = (\<lambda>w. Value (VStr ''10.0.0.1'')),
      exp_get_free_port = (\<lambda>w. Value (VInt 29500)),
      exp_setup_experiment = (\<lambda>cfg w. (if w < 2 then ActorDied else Value (), w)),
      exp_pre_experiment = (\<lambda>w. (Value (VInt 0), w)),
      exp_run_epoch = (\<lambda>w. (Value (VInt (int w)), Suc w)),
      exp_run_task = (\<lambda>w. (Value (VInt (int w)), Suc w)),
      exp_should_stop = (\<lambda>w. Value (10 \<le> w)),
      exp_get_state = (\<lambda>w. Value (VInt (int w))),
      exp_set_state = (\<lambda>v w. (Value (), case v of VInt i \<Rightarrow> nat i | _ \<Rightarrow> w)),
      exp_get_current_epoch = (\<lambda>w. Value (int w)),
      aggregate_results =
        (\<lambda>rs. [(''mean_accuracy'', VFloat (1 / 2)), (''extra_val_results'', VList [])]),
      aggregate_pre_experiment_results = (\<lambda>rs. VDict [(''mean_accuracy'', VFloat 0)]),
      ray_wait = (\<lambda>n. 0),
      py_repr = (\<lambda>v. ''?''),
      float_sub = (\<lambda>a b. a - b),
      is_sigopt_class = (\<lambda>v. True),
      get_next_suggestion = (\<lambda>sg. VDict []),
      update_config_with_suggestion = (\<lambda>sg cfg s. cfg)\<rparr>"

definition sim_trainable :: "nat trainable" where
  "sim_trainable =
     \<lparr>cls = Supervised, trial_name = ''trial_7'', iteration = 0, max_retries = 3,
      restore_checkpoint_file = VNone, restored = False, first_run = True,
      procs = [], next_actor = 0, heap = [[(''num_cpus'', VInt 2)]], events = [],
      sigopt = None, suggestion = VNone, epochs = VNone, metric_names = []\<rparr>"

text \<open>The same cluster, except that a worker whose counter is 4 is dead.\<close>

definition sim_flaky_env :: "nat env" where
  "sim_flaky_env =
     sim_env\<lparr>exp_pre_experiment := (\<lambda>w. (if w = 4 then ActorDied else Value (VInt 0), w)),
             exp_run_epoch :=
               (\<lambda>w. (if w = 4 then ActorDied else Value (VInt (int w)), Suc w))\<rparr>"

text \<open>
  Variants of the cluster: one where the setup of the first two actors raises instead
  of dying, one where the pre-experiment call of a worker at counter 4 fails at the
  transport level, one where that of a worker at counter 3 raises as well, and one where
  a worker at counter 4 is dead to the stop poll.
\<close>

definition sim_raising_env :: "nat env" where
  "sim_raising_env =
     sim_env\<lparr>exp_setup_experiment := (\<lambda>cfg w. (if w < 2 then TaskFailed else Value (), w))\<rparr>"

definition sim_pre_dead_env :: "nat env" where
  "sim_pre_dead_env =
     sim_env\<lparr>exp_pre_experiment := (\<lambda>w. (if w = 4 then ActorDied else Value (VInt 0), w))\<rparr>"

definition sim_pre_mixed_env :: "nat env" where
  "sim_pre_mixed_env =
     sim_env\<lparr>exp_pre_experiment :=
               (\<lambda>w. (if w = 4 then ActorDied else if w = 3 then TaskFailed
                      else Value (VInt 0), w))\<rparr>"

definition sim_poll_dead_env :: "nat env" where
  "sim_poll_dead_env =
     sim_env\<lparr>exp_should_stop := (\<lambda>w. if w = 4 then ActorDied else Value (10 \<le> w))\<rparr>"

text \<open>
  A tuning-integrated trainable after its configuration hook: one epoch configured,
  the given metric names.
\<close>

definition sim_sigopt_trainable :: "val list \<Rightarrow> nat trainable" where
  "sim_sigopt_trainable names =
     sim_trainable\<lparr>cls := SigOptSupervised,
                   sigopt := Some \<lparr>sigopt_class = SigOptExperiment, experiment_id = VInt 1,
                                   sigopt_config = VDict []\<rparr>,
                   epochs := VInt 1, metric_names := names\<rparr>"

text \<open>A pool of two workers with the given counters.\<close>

definition sim_pool :: "nat \<Rightarrow> nat \<Rightarrow> nat handle list" where
  "sim_pool a b = [\<lparr>actor_id = 0, wstate = a\<rparr>, \<lparr>actor_id = 1, wstate = b\<rparr>]"

section \<open>The failure check\<close>

lemma set_remove_nth:
  "i < length xs \<Longrightarrow> set xs = insert (xs ! i) (set (take i xs @ drop (Suc i) xs))"
  by (metis Cons_nth_drop_Suc append_take_drop_id list.simps(15) set_append Un_insert_right)

text \<open>
  Whatever the completion order, the check answers True exactly when every reference
  holds a value; otherwise it answers False having met a dead actor, or raises having
  met a failed task.
\<close>

lemma cff_cases:
  "check_for_failure wait rs = Inr True \<and> (\<forall>r\<in>set rs. \<exists>v. r = Value v)
   \<or> check_for_failure wait rs = Inr False \<and> ActorDied \<in> set rs
   \<or> check_for_failure wait rs = Inl RayTaskError \<and> TaskFailed \<in> set rs"
proof (induction wait rs rule: check_for_failure.induct)
  case (1 wait)
  show ?case by simp
next
  case (2 wait r rs)
  define us where "us = r # rs"
  define i where "i = wait (length us) mod length us"
  define rest where "rest = take i us @ drop (Suc i) us"
  have i: "i < length us" by (simp add: i_def us_def)
  have S: "set us = insert (us ! i) (set rest)"
    unfolding rest_def using set_remove_nth [OF i] .
  show ?case
  proof (cases "us ! i")
    case (Value v)
    have IH: "check_for_failure wait rest = Inr True \<and> (\<forall>r\<in>set rest. \<exists>v. r = Value v)
      \<or> check_for_failure wait rest = Inr False \<and> ActorDied \<in> set rest
      \<or> check_for_failure wait rest = Inl RayTaskError \<and> TaskFailed \<in> set rest"
      using "2.IH" [of us i v] Value by (simp add: us_def i_def rest_def)
    have E: "check_for_failure wait us = check_for_failure wait rest"
      using Value by (simp add: us_def i_def rest_def check_for_failure.simps(2) Let_def)
    show ?thesis unfolding us_def [symmetric] E using IH S Value by auto
  next
    case ActorDied
    have E: "check_for_failure wait us = Inr False"
      using ActorDied by (simp add: us_def i_def check_for_failure.simps(2) Let_def)
    show ?thesis unfolding us_def [symmetric] using E S ActorDied by auto
  next
    case TaskFailed
    have E: "check_for_failure wait us = Inl RayTaskError"
      using TaskFailed by (simp add: us_def i_def check_for_failure.simps(2) Let_def)
    show ?thesis unfolding us_def [symmetric] using E S TaskFailed by auto
  qed
qed

lemma cff_values: "\<forall>r\<in>set rs. \<exists>v. r = Value v \<Longrightarrow> check_for_failure wait rs = Inr True"
  using cff_cases [of wait rs] by auto

lemma cff_TrueD: "check_for_failure wait rs = Inr True \<Longrightarrow> r \<in> set rs \<Longrightarrow> \<exists>v. r = Value v"
  using cff_cases [of wait rs] by auto

lemma cff_actor_died:
  "ActorDied \<in> set rs \<Longrightarrow> TaskFailed \<notin> set rs \<Longrightarrow> check_for_failure wait rs = Inr False"
  using cff_cases [of wait rs] by auto

lemma cff_failure:
  "ActorDied \<in> set rs \<Longrightarrow>
     check_for_failure wait rs = Inr False \<or> check_for_failure wait rs = Inl RayTaskError"
  using cff_cases [of wait rs] by auto

lemma cff_single:
  "check_for_failure wait [r] =
     (case r of Value v \<Rightarrow> Inr True | ActorDied \<Rightarrow> Inr False | TaskFailed \<Rightarrow> Inl RayTaskError)"
  using cff_cases [of wait "[r]"] by (cases r) auto

section \<open>Facts about the methods\<close>

lemma map_of_setitem: "map_of (setitem d k v) k' = (if k' = k then Some v else map_of d k')"
  by (induction d k v rule: setitem.induct) auto

lemma should_stop_eq:
  "should_stop env st =
     (case procs st of
        [] \<Rightarrow> (Inl IndexError, st)
      | w # ws \<Rightarrow> (case stop_flag (exp_should_stop env (wstate w)) of
                     None \<Rightarrow> Inl RayTaskError | Some b \<Rightarrow> Inr b,
                   emit (Call (actor_id w) ShouldStop) st))"
  by (cases "procs st"; cases "exp_should_stop env (wstate (hd (procs st)))")
     (simp_all add: should_stop_def cff_single Let_def)

lemma kill_workers_procs: "procs (kill_workers st) = []"
  by (simp add: kill_workers_def)

lemma kill_workers_events:
  "events (kill_workers st) = events st @ map Kill (map actor_id (procs st))"
  by (simp add: kill_workers_def)

lemma process_result_procs:
  "process_result env ret pre st = (r, st') \<Longrightarrow> procs st' = procs st"
  by (auto simp: process_result_def sigopt_process_result_def emit_def Let_def
           split: variant.splits sum.splits if_splits bool.splits)

lemma process_result_events:
  "process_result env ret pre st = (r, st') \<Longrightarrow> \<exists>es. events st' = events st @ es"
  by (auto simp: process_result_def sigopt_process_result_def emit_def Let_def
           split: variant.splits sum.splits if_splits bool.splits)

lemma process_result_no_pre:
  "cls st \<noteq> SigOptSupervised \<Longrightarrow> process_result env ret VNone st = (Inr ret, st)"
  by (cases "cls st") (simp_all add: process_result_def supervised_process_result_def)

lemma run_iteration_fst:
  "fst (run_iteration env st) =
     (case check_for_failure (ray_wait env) (work_status env st) of
        Inl e \<Rightarrow> Inl e
      | Inr True \<Rightarrow> (case ray_get_all (work_status env st) of
                       Inl e \<Rightarrow> Inl e | Inr results \<Rightarrow> Inr (Some results))
      | Inr False \<Rightarrow> Inr None)"
  by (cases "cls st")
     (simp_all add: run_iteration_def work_status_def dispatch_all_def
               split: sum.splits bool.splits)

lemma run_iteration_ids:
  "map actor_id (procs (snd (run_iteration env st))) = map actor_id (procs st)"
  by (cases "cls st")
     (simp_all add: run_iteration_def dispatch_all_def comp_def
               split: sum.splits bool.splits)

lemma iteration_block_done:
  assumes "iteration_block env pre st = (Inr ret, st')"
  shows "\<exists>b. procs st' \<noteq> []
           \<and> stop_flag (exp_should_stop env (wstate (hd (procs st')))) = Some b
           \<and> map_of ret DONE = Some (VBool b)"
proof -
  obtain r2 st2 where R: "run_iteration env st = (r2, st2)" by (cases "run_iteration env st")
  from assms R obtain results where r2: "r2 = Inr (Some results)"
    by (auto simp: iteration_block_def split: sum.splits option.splits)
  obtain r3 st3 where P: "process_result env (aggregate_results env results) pre st2 = (r3, st3)"
    by (cases "process_result env (aggregate_results env results) pre st2")
  from assms R r2 P obtain ret0 where r3: "r3 = Inr ret0"
    by (auto simp: iteration_block_def split: sum.splits)
  obtain r4 st4 where S: "should_stop env st3 = (r4, st4)" by (cases "should_stop env st3")
  from assms R r2 P r3 S obtain b where r4: "r4 = Inr b"
    and ret: "ret = setitem ret0 DONE (VBool b)" and st': "st' = st4"
    by (auto simp: iteration_block_def split: sum.splits)
  from S r4 obtain w ws where ps: "procs st3 = w # ws"
    and sf: "stop_flag (exp_should_stop env (wstate w)) = Some b"
    and st4: "st4 = emit (Call (actor_id w) ShouldStop) st3"
    by (auto simp: should_stop_eq split: list.splits option.splits)
  show ?thesis
    using ps sf st4 st' ret by (auto simp: emit_def map_of_setitem)
qed

section \<open>The iteration driver\<close>

text \<open>
  C4. A trainable restored from a checkpoint whose coordinator already reports the stop
  condition: the first call of \<^verbatim>\<open>_train\<close> returns the record with the duplicate and the
  done flag set. The only remote call of that step is the poll itself, so no
  pre-experiment and no unit of work is dispatched.
\<close>

theorem train_restored_stop:
  assumes "first_run st" and "restored st" and "procs st = w # ws"
    and "exp_should_stop env (wstate w) = Value True"
  shows "train env st =
           (Inr [(RESULT_DUPLICATE, VBool True), (DONE, VBool True)],
            st\<lparr>first_run := False, events := events st @ [Call (actor_id w) ShouldStop]\<rparr>)"
  using assms
  by (simp add: train_def train_body_def first_run_block_def should_stop_eq emit_def)

theorem train_restored_stop_witness:
  "first_run (sim_trainable\<lparr>restored := True, procs := sim_pool 10 10\<rparr>)
   \<and> restored (sim_trainable\<lparr>restored := True, procs := sim_pool 10 10\<rparr>)
   \<and> exp_should_stop sim_env 10 = Value True
   \<and> train sim_env (sim_trainable\<lparr>restored := True, procs := sim_pool 10 10\<rparr>) =
       (Inr [(RESULT_DUPLICATE, VBool True), (DONE, VBool True)],
        sim_trainable\<lparr>restored := True, procs := sim_pool 10 10, first_run := False,
                      events := [Call 0 ShouldStop]\<rparr>)"
  using train_restored_stop [of "sim_trainable\<lparr>restored := True, procs := sim_pool 10 10\<rparr>"
      "\<lparr>actor_id = 0, wstate = 10\<rparr>" "[\<lparr>actor_id = 1, wstate = 10\<rparr>]" sim_env]
  by (simp add: sim_trainable_def sim_pool_def sim_env_def)

lemma run_iteration_events:
  "events (snd (run_iteration env st))
     = events st @ map (\<lambda>w. Call (actor_id w) (work_method (cls st))) (procs st)"
  by (cases "cls st")
     (simp_all add: run_iteration_def dispatch_all_def work_method_def
               split: sum.splits bool.splits)

lemma iteration_block_events:
  "\<exists>es. events (snd (iteration_block env pre st))
          = events st @ map (\<lambda>w. Call (actor_id w) (work_method (cls st))) (procs st) @ es"
proof -
  define ws where "ws = map (\<lambda>w. Call (actor_id w) (work_method (cls st))) (procs st)"
  obtain r2 st2 where R: "run_iteration env st = (r2, st2)" by (cases "run_iteration env st")
  have e2: "events st2 = events st @ ws"
    using run_iteration_events [of env st] R by (simp add: ws_def)
  have "\<exists>es. events (snd (iteration_block env pre st)) = events st @ ws @ es"
  proof (cases r2)
    case (Inl e)
    with R e2 show ?thesis by (simp add: iteration_block_def)
  next
    case (Inr x)
    show ?thesis
    proof (cases x)
      case None
      with R Inr e2 show ?thesis by (simp add: iteration_block_def)
    next
      case (Some results)
      obtain r3 st3
        where P: "process_result env (aggregate_results env results) pre st2 = (r3, st3)"
        by (cases "process_result env (aggregate_results env results) pre st2")
      from process_result_events [OF P] obtain es1 where e3: "events st3 = events st2 @ es1"
        by blast
      show ?thesis
      proof (cases r3)
        case (Inl e)
        with R Inr Some P e2 e3 show ?thesis by (simp add: iteration_block_def)
      next
        case ret: (Inr ret)
        obtain r4 st4 where S: "should_stop env st3 = (r4, st4)"
          by (cases "should_stop env st3")
        have "\<exists>es2. events st4 = events st3 @ es2"
          using S by (auto simp: should_stop_eq emit_def split: list.splits)
        then obtain es2 where e4: "events st4 = events st3 @ es2" by blast
        have "snd (iteration_block env pre st) = st4"
          using R Inr Some P ret S by (cases r4) (simp_all add: iteration_block_def)
        then show ?thesis using e2 e3 e4 by simp
      qed
    qed
  qed
  then show ?thesis unfolding ws_def .
qed

text \<open>
  What \<^verbatim>\<open>_train\<close> returns once the first-run block has gone on, the unit of work has
  succeeded on every worker and the post-processing has succeeded: it depends on the
  poll of the coordinator only.
\<close>

lemma train_returns:
  assumes "first_run_block env st = (Inr (Inr pre), st1)"
    and "run_iteration env st1 = (Inr (Some results), st2)"
    and "process_result env (aggregate_results env results) pre st2 = (Inr ret0, st3)"
    and "procs st3 = w # ws"
  shows "train env st =
           (case stop_flag (exp_should_stop env (wstate w)) of
              Some b \<Rightarrow> (Inr (setitem ret0 DONE (VBool b)),
                         emit (Call (actor_id w) ShouldStop) st3)
            | None \<Rightarrow> (Inl RayTaskError,
                       kill_workers (emit (Call (actor_id w) ShouldStop) st3)))"
  using assms
  by (simp add: train_def train_body_def iteration_block_def should_stop_eq
           split: option.splits)

lemma train_done_flag:
  assumes "train env st = (Inr ret, st')"
  shows "\<exists>b. procs st' \<noteq> []
           \<and> stop_flag (exp_should_stop env (wstate (hd (procs st')))) = Some b
           \<and> map_of ret DONE = Some (VBool b)"
proof -
  from assms have tb: "train_body env st = (Inr ret, st')"
    by (auto simp: train_def split: prod.splits sum.splits)
  obtain r1 st1 where F: "first_run_block env st = (r1, st1)"
    by (cases "first_run_block env st")
  show ?thesis
  proof (cases r1)
    case (Inl e)
    with tb F show ?thesis by (simp add: train_body_def)
  next
    case (Inr x)
    show ?thesis
    proof (cases x)
      case (Inl d)
      with tb F Inr have d: "ret = d" "st' = st1" by (simp_all add: train_body_def)
      from F Inr Inl have fr: "first_run st" and re: "restored st"
        by (auto simp: first_run_block_def Let_def
                 split: if_splits prod.splits sum.splits bool.splits)
      from F Inr Inl fr re obtain w ws where ps: "procs st = w # ws"
        and sf: "stop_flag (exp_should_stop env (wstate w)) = Some True"
        and s1: "st1 = emit (Call (actor_id w) ShouldStop) (st\<lparr>first_run := False\<rparr>)"
        and dd: "d = [(RESULT_DUPLICATE, VBool True), (DONE, VBool True)]"
        by (auto simp: first_run_block_def Let_def should_stop_eq
                 split: if_splits prod.splits sum.splits bool.splits list.splits option.splits)
      show ?thesis using d ps sf s1 dd by (auto simp: emit_def RESULT_DUPLICATE_def DONE_def)
    next
      case (Inr pre)
      with tb F \<open>r1 = Inr x\<close> have "iteration_block env pre st1 = (Inr ret, st')"
        by (simp add: train_body_def)
      then show ?thesis by (rule iteration_block_done)
    qed
  qed
qed

text \<open>
  C6. Every record a successful \<^verbatim>\<open>_train\<close> returns carries the done flag, and the
  flag is what the poll of the coordinator (the first process of the pool) stands for:
  its answer, or True when the poll failed at the transport level; this holds for the
  duplicate record as well. And the poll does not make the call fail: on the
  non-duplicate path, once the unit of work and the post-processing have succeeded, a
  poll answering \<open>b\<close> makes \<^verbatim>\<open>_train\<close> return the record with \<open>done = b\<close>, and a poll that
  fails at the transport level makes it return the record with \<open>done = True\<close>.
\<close>

theorem train_stop_flag:
  "(train env st = (Inr ret, st') \<longrightarrow>
      (\<exists>b. procs st' \<noteq> []
          \<and> stop_flag (exp_should_stop env (wstate (hd (procs st')))) = Some b
          \<and> map_of ret DONE = Some (VBool b)))
   \<and> (first_run_block env st = (Inr (Inr pre), st1)
        \<and> run_iteration env st1 = (Inr (Some results), st2)
        \<and> process_result env (aggregate_results env results) pre st2 = (Inr ret0, st3)
        \<and> procs st3 = w # ws \<longrightarrow>
      (\<forall>b. exp_should_stop env (wstate w) = Value b \<longrightarrow>
            train env st = (Inr (setitem ret0 DONE (VBool b)),
                            emit (Call (actor_id w) ShouldStop) st3))
      \<and> (exp_should_stop env (wstate w) = ActorDied \<longrightarrow>
            train env st = (Inr (setitem ret0 DONE (VBool True)),
                            emit (Call (actor_id w) ShouldStop) st3)))"
proof (intro conjI impI allI)
  assume "train env st = (Inr ret, st')"
  then show "\<exists>b. procs st' \<noteq> []
          \<and> stop_flag (exp_should_stop env (wstate (hd (procs st')))) = Some b
          \<and> map_of ret DONE = Some (VBool b)"
    by (rule train_done_flag)
next
  fix b
  assume H: "first_run_block env st = (Inr (Inr pre), st1)
        \<and> run_iteration env st1 = (Inr (Some results), st2)
        \<and> process_result env (aggregate_results env results) pre st2 = (Inr ret0, st3)
        \<and> procs st3 = w # ws"
    and V: "exp_should_stop env (wstate w) = Value b"
  from H have h: "first_run_block env st = (Inr (Inr pre), st1)"
    "run_iteration env st1 = (Inr (Some results), st2)"
    "process_result env (aggregate_results env results) pre st2 = (Inr ret0, st3)"
    "procs st3 = w # ws"
    by simp_all
  have "train env st =
           (case stop_flag (exp_should_stop env (wstate w)) of
              Some b \<Rightarrow> (Inr (setitem ret0 DONE (VBool b)),
                         emit (Call (actor_id w) ShouldStop) st3)
            | None \<Rightarrow> (Inl RayTaskError,
                       kill_workers (emit (Call (actor_id w) ShouldStop) st3)))"
    by (rule train_returns [OF h])
  with V show "train env st = (Inr (setitem ret0 DONE (VBool b)),
                            emit (Call (actor_id w) ShouldStop) st3)"
    by simp
next
  assume H: "first_run_block env st = (Inr (Inr pre), st1)
        \<and> run_iteration env st1 = (Inr (Some results), st2)
        \<and> process_result env (aggregate_results env results) pre st2 = (Inr ret0, st3)
        \<and> procs st3 = w # ws"
    and D: "exp_should_stop env (wstate w) = ActorDied"
  from H have h: "first_run_block env st = (Inr (Inr pre), st1)"
    "run_iteration env st1 = (Inr (Some results), st2)"
    "process_result env (aggregate_results env results) pre st2 = (Inr ret0, st3)"
    "procs st3 = w # ws"
    by simp_all
  have "train env st =
           (case stop_flag (exp_should_stop env (wstate w)) of
              Some b \<Rightarrow> (Inr (setitem ret0 DONE (VBool b)),
                         emit (Call (actor_id w) ShouldStop) st3)
            | None \<Rightarrow> (Inl RayTaskError,
                       kill_workers (emit (Call (actor_id w) ShouldStop) st3)))"
    by (rule train_returns [OF h])
  with D show "train env st = (Inr (setitem ret0 DONE (VBool True)),
                            emit (Call (actor_id w) ShouldStop) st3)"
    by simp
qed

lemma sim_train_step:
  "train sim_env (sim_trainable\<lparr>first_run := False, procs := sim_pool 3 3\<rparr>) =
     (Inr [(''mean_accuracy'', VFloat (1 / 2)), (''extra_val_results'', VList []),
           (''done'', VBool False)],
      sim_trainable\<lparr>first_run := False, procs := sim_pool 4 4,
                    events := [Call 0 RunEpoch, Call 1 RunEpoch, Call 0 ShouldStop]\<rparr>)"
  by (simp add: train_def train_body_def first_run_block_def iteration_block_def
        run_iteration_def dispatch_all_def process_result_def supervised_process_result_def
        should_stop_def emit_def sim_trainable_def sim_pool_def sim_env_def
        check_for_failure.simps(2) DONE_def Let_def)

lemma sim_poll_dead_steps:
  "first_run_block sim_poll_dead_env (sim_trainable\<lparr>first_run := False, procs := sim_pool 3 3\<rparr>)
     = (Inr (Inr VNone), sim_trainable\<lparr>first_run := False, procs := sim_pool 3 3\<rparr>)"
  "run_iteration sim_poll_dead_env (sim_trainable\<lparr>first_run := False, procs := sim_pool 3 3\<rparr>)
     = (Inr (Some [VInt 3, VInt 3]),
        sim_trainable\<lparr>first_run := False, procs := sim_pool 4 4,
                      events := [Call 0 RunEpoch, Call 1 RunEpoch]\<rparr>)"
  "process_result sim_poll_dead_env (aggregate_results sim_poll_dead_env [VInt 3, VInt 3]) VNone
       (sim_trainable\<lparr>first_run := False, procs := sim_pool 4 4,
                      events := [Call 0 RunEpoch, Call 1 RunEpoch]\<rparr>)
     = (Inr [(''mean_accuracy'', VFloat (1 / 2)), (''extra_val_results'', VList [])],
        sim_trainable\<lparr>first_run := False, procs := sim_pool 4 4,
                      events := [Call 0 RunEpoch, Call 1 RunEpoch]\<rparr>)"
  "procs (sim_trainable\<lparr>first_run := False, procs := sim_pool 4 4,
                       events := [Call 0 RunEpoch, Call 1 RunEpoch]\<rparr>)
     = \<lparr>actor_id = 0, wstate = 4\<rparr> # [\<lparr>actor_id = 1, wstate = 4\<rparr>]"
  by (simp_all add: first_run_block_def run_iteration_def dispatch_all_def process_result_def
        supervised_process_result_def sim_trainable_def sim_pool_def sim_poll_dead_env_def
        sim_env_def check_for_failure.simps(2) Let_def)

theorem train_stop_flag_witness:
  "train sim_env (sim_trainable\<lparr>first_run := False, procs := sim_pool 3 3\<rparr>) =
     (Inr [(''mean_accuracy'', VFloat (1 / 2)), (''extra_val_results'', VList []),
           (''done'', VBool False)],
      sim_trainable\<lparr>first_run := False, procs := sim_pool 4 4,
                    events := [Call 0 RunEpoch, Call 1 RunEpoch, Call 0 ShouldStop]\<rparr>)
   \<and> stop_flag (exp_should_stop sim_env 4) = Some False
   \<and> exp_should_stop sim_poll_dead_env 4 = ActorDied
   \<and> train sim_poll_dead_env (sim_trainable\<lparr>first_run := False, procs := sim_pool 3 3\<rparr>) =
       (Inr [(''mean_accuracy'', VFloat (1 / 2)), (''extra_val_results'', VList []),
             (''done'', VBool True)],
        sim_trainable\<lparr>first_run := False, procs := sim_pool 4 4,
                      events := [Call 0 RunEpoch, Call 1 RunEpoch, Call 0 ShouldStop]\<rparr>)"
proof -
  have D: "exp_should_stop sim_poll_dead_env (wstate \<lparr>actor_id = 0, wstate = 4::nat\<rparr>) = ActorDied"
    by (simp add: sim_poll_dead_env_def sim_env_def)
  have A: "stop_flag (exp_should_stop sim_env 4) = Some False"
    by (simp add: sim_env_def)
  have B: "train sim_poll_dead_env (sim_trainable\<lparr>first_run := False, procs := sim_pool 3 3\<rparr>)
      = (Inr (setitem [(''mean_accuracy'', VFloat (1 / 2)), (''extra_val_results'', VList [])]
                 DONE (VBool True)),
         emit (Call (actor_id \<lparr>actor_id = 0, wstate = 4::nat\<rparr>) ShouldStop)
           (sim_trainable\<lparr>first_run := False, procs := sim_pool 4 4,
                          events := [Call 0 RunEpoch, Call 1 RunEpoch]\<rparr>))"
    using train_stop_flag
      [where env = sim_poll_dead_env
         and st = "sim_trainable\<lparr>first_run := False, procs := sim_pool 3 3\<rparr>",
       THEN conjunct2, rule_format, THEN conjunct2, rule_format,
       OF conjI [OF sim_poll_dead_steps(1) conjI [OF sim_poll_dead_steps(2)
                   conjI [OF sim_poll_dead_steps(3) sim_poll_dead_steps(4)]]] D] .
  show ?thesis
    using sim_train_step A B D by (simp add: emit_def DONE_def)
qed

text \<open>
  C3. Once \<^verbatim>\<open>_train\<close> gets to dispatch the unit of work (the first-run block did not
  end the call), a transport-level failure of any worker's call makes \<^verbatim>\<open>_train\<close>
  raise, and the state it leaves has an empty pool, every process of the pool killed.
\<close>

theorem train_worker_failure:
  assumes "first_run_block env st = (Inr (Inr pre), st1)"
    and "ActorDied \<in> set (work_status env st1)"
  shows "\<exists>e st'. train env st = (Inl e, st') \<and> procs st' = []
           \<and> (\<forall>w\<in>set (procs st1). Kill (actor_id w) \<in> set (events st'))"
proof -
  obtain r2 st2 where R: "run_iteration env st1 = (r2, st2)" by (cases "run_iteration env st1")
  have ids: "map actor_id (procs st2) = map actor_id (procs st1)"
    using run_iteration_ids [of env st1] R by simp
  have r2: "r2 = Inr None \<or> r2 = Inl RayTaskError"
    using run_iteration_fst [of env st1] R cff_failure [OF assms(2), of "ray_wait env"]
    by auto
  then obtain e where I: "iteration_block env pre st1 = (Inl e, st2)"
    using R by (auto simp: iteration_block_def)
  have T: "train env st = (Inl e, kill_workers st2)"
    using assms(1) I by (simp add: train_def train_body_def)
  have K: "\<forall>w\<in>set (procs st1). Kill (actor_id w) \<in> set (events (kill_workers st2))"
  proof
    fix w assume "w \<in> set (procs st1)"
    then have "actor_id w \<in> set (map actor_id (procs st2))" unfolding ids by simp
    then show "Kill (actor_id w) \<in> set (events (kill_workers st2))"
      unfolding kill_workers_events by auto
  qed
  show ?thesis using T K kill_workers_procs by blast
qed

theorem train_worker_failure_witness:
  "first_run_block sim_flaky_env (sim_trainable\<lparr>first_run := False, procs := sim_pool 3 4\<rparr>) =
     (Inr (Inr VNone), sim_trainable\<lparr>first_run := False, procs := sim_pool 3 4\<rparr>)
   \<and> ActorDied \<in> set (work_status sim_flaky_env
                         (sim_trainable\<lparr>first_run := False, procs := sim_pool 3 4\<rparr>))
   \<and> (\<exists>e st'. train sim_flaky_env (sim_trainable\<lparr>first_run := False, procs := sim_pool 3 4\<rparr>)
                = (Inl e, st')
        \<and> procs st' = [] \<and> Kill 0 \<in> set (events st') \<and> Kill 1 \<in> set (events st'))"
proof -
  have F: "first_run_block sim_flaky_env
             (sim_trainable\<lparr>first_run := False, procs := sim_pool 3 4\<rparr>) =
           (Inr (Inr VNone), sim_trainable\<lparr>first_run := False, procs := sim_pool 3 4\<rparr>)"
    by (simp add: first_run_block_def sim_trainable_def)
  have W: "ActorDied \<in> set (work_status sim_flaky_env
                         (sim_trainable\<lparr>first_run := False, procs := sim_pool 3 4\<rparr>))"
    by (simp add: work_status_def sim_trainable_def sim_pool_def sim_flaky_env_def sim_env_def)
  show ?thesis
    using train_worker_failure [OF F W] F W
    by (simp add: sim_trainable_def sim_pool_def)
qed

text \<open>
  C10, as stated, fails: the pre-experiment batch is checked like every batch, and when
  one worker's call fails at the transport level while another worker's call raises, the
  check may meet the raised exception first. Then \<^verbatim>\<open>_train\<close> raises and its handler
  kills the pool, on the first call, before any unit of work is dispatched.
\<close>

theorem first_run_pre_experiment_failure_counterexample:
  "first_run (sim_trainable\<lparr>procs := sim_pool 3 4\<rparr>)
   \<and> iteration (sim_trainable\<lparr>procs := sim_pool 3 4\<rparr>) = 0
   \<and> pre_experiment_status sim_pre_mixed_env (sim_trainable\<lparr>procs := sim_pool 3 4\<rparr>)
       = [TaskFailed, ActorDied]
   \<and> train sim_pre_mixed_env (sim_trainable\<lparr>procs := sim_pool 3 4\<rparr>) =
       (Inl RayTaskError,
        sim_trainable\<lparr>first_run := False, procs := [],
                      events := [Call 0 PreExperiment, Call 1 PreExperiment, Kill 0, Kill 1]\<rparr>)"
  by (simp add: train_def train_body_def first_run_block_def dispatch_all_def
        pre_experiment_status_def kill_workers_def sim_trainable_def sim_pool_def
        sim_pre_mixed_env_def sim_env_def check_for_failure.simps(2) Let_def)

text \<open>
  C10, amended. On the first call of \<^verbatim>\<open>_train\<close> at iteration 0 (not cut short by the
  restored stop check), a pre-experiment batch in which some worker's call fails at the
  transport level and no worker's call raises is not an error: the first-run block ends
  without a pre-experiment result, the pool keeps its processes and nothing is killed.
  \<^verbatim>\<open>_train\<close> then goes on as an iteration without a pre-experiment result does: the
  next thing it does is to dispatch the unit of work to every process of the pool, and
  when that and the post-processing (given no pre-experiment result) succeed it returns
  the post-processed record with the done flag of the poll.
\<close>

theorem first_run_pre_experiment_failure:
  assumes "first_run st" and "iteration st = 0"
    and "\<not> restored st
         \<or> (\<exists>w ws. procs st = w # ws \<and> exp_should_stop env (wstate w) = Value False)"
    and "ActorDied \<in> set (pre_experiment_status env st)"
    and "TaskFailed \<notin> set (pre_experiment_status env st)"
  shows "\<exists>st1. first_run_block env st = (Inr (Inr VNone), st1)
           \<and> map actor_id (procs st1) = map actor_id (procs st)
           \<and> (\<forall>a. Kill a \<notin> set (new_events st st1))
           \<and> train env st =
               (case iteration_block env VNone st1 of
                  (Inl e, s) \<Rightarrow> (Inl e, kill_workers s)
                | (Inr ret, s) \<Rightarrow> (Inr ret, s))
           \<and> (\<exists>es. new_events st1 (snd (train env st))
                     = map (\<lambda>w. Call (actor_id w) (work_method (cls st))) (procs st1) @ es)
           \<and> (\<forall>results st2 ret0 st3 w ws b.
                 run_iteration env st1 = (Inr (Some results), st2)
                 \<and> process_result env (aggregate_results env results) VNone st2 = (Inr ret0, st3)
                 \<and> procs st3 = w # ws
                 \<and> stop_flag (exp_should_stop env (wstate w)) = Some b
                 \<longrightarrow> train env st = (Inr (setitem ret0 DONE (VBool b)),
                                     emit (Call (actor_id w) ShouldStop) st3))"
proof -
  define st0 where "st0 = st\<lparr>first_run := False\<rparr>"
  have "\<exists>st2. (if restored st0 then should_stop env st0 else (Inr False, st0)) = (Inr False, st2)
           \<and> procs st2 = procs st \<and> iteration st2 = 0 \<and> cls st2 = cls st
           \<and> (\<exists>es. events st2 = events st @ es \<and> (\<forall>a. Kill a \<notin> set es))"
  proof (cases "restored st")
    case False
    then show ?thesis using assms(2) by (simp add: st0_def)
  next
    case True
    with assms(3) obtain w ws where "procs st = w # ws"
      and "exp_should_stop env (wstate w) = Value False" by blast
    then show ?thesis using True assms(2) by (simp add: st0_def should_stop_eq emit_def)
  qed
  then obtain st2
    where S: "(if restored st0 then should_stop env st0 else (Inr False, st0)) = (Inr False, st2)"
    and p2: "procs st2 = procs st" and i2: "iteration st2 = 0" and c2: "cls st2 = cls st"
    and e2: "\<exists>es. events st2 = events st @ es \<and> (\<forall>a. Kill a \<notin> set es)"
    by blast
  define st3 where "st3 = snd (dispatch_all (exp_pre_experiment env) PreExperiment st2)"
  have status: "fst (dispatch_all (exp_pre_experiment env) PreExperiment st2)
                  = pre_experiment_status env st"
    by (simp add: dispatch_all_def pre_experiment_status_def p2)
  have cff: "check_for_failure (ray_wait env) (pre_experiment_status env st) = Inr False"
    using cff_actor_died [OF assms(4,5)] .
  have D: "dispatch_all (exp_pre_experiment env) PreExperiment st2
             = (pre_experiment_status env st, st3)"
    using status by (simp add: st3_def prod_eq_iff)
  have F: "first_run_block env st = (Inr (Inr VNone), st3)"
    using assms(1) S i2 D cff
    by (simp add: first_run_block_def st0_def [symmetric] Let_def)
  have ids: "map actor_id (procs st3) = map actor_id (procs st)"
    by (simp add: st3_def dispatch_all_def p2 comp_def)
  have c3: "cls st3 = cls st" by (simp add: st3_def dispatch_all_def c2)
  have ev: "\<forall>a. Kill a \<notin> set (new_events st st3)"
    using e2 by (auto simp: st3_def dispatch_all_def new_events_def)
  have T: "train env st = (case iteration_block env VNone st3 of
                  (Inl e, s) \<Rightarrow> (Inl e, kill_workers s)
                | (Inr ret, s) \<Rightarrow> (Inr ret, s))"
    using F by (simp add: train_def train_body_def)
  obtain r s where I: "iteration_block env VNone st3 = (r, s)"
    by (cases "iteration_block env VNone st3")
  from iteration_block_events [of env VNone st3] I obtain es1 where
    es1: "events s = events st3
            @ map (\<lambda>w. Call (actor_id w) (work_method (cls st))) (procs st3) @ es1"
    unfolding c3 by auto
  have "\<exists>es2. events (snd (train env st)) = events s @ es2"
    unfolding T I by (cases r) (simp_all add: kill_workers_events)
  then obtain es2 where "events (snd (train env st)) = events s @ es2" by blast
  then have W: "\<exists>es. new_events st3 (snd (train env st))
                     = map (\<lambda>w. Call (actor_id w) (work_method (cls st))) (procs st3) @ es"
    unfolding es1 by (simp add: new_events_def)
  have R: "\<forall>results st2 ret0 st3' w ws b.
                 run_iteration env st3 = (Inr (Some results), st2)
                 \<and> process_result env (aggregate_results env results) VNone st2 = (Inr ret0, st3')
                 \<and> procs st3' = w # ws
                 \<and> stop_flag (exp_should_stop env (wstate w)) = Some b
                 \<longrightarrow> train env st = (Inr (setitem ret0 DONE (VBool b)),
                                     emit (Call (actor_id w) ShouldStop) st3')"
  proof (intro allI impI)
    fix results st2 ret0 st3' w ws b
    assume H: "run_iteration env st3 = (Inr (Some results), st2)
                 \<and> process_result env (aggregate_results env results) VNone st2 = (Inr ret0, st3')
                 \<and> procs st3' = w # ws
                 \<and> stop_flag (exp_should_stop env (wstate w)) = Some b"
    then have h: "run_iteration env st3 = (Inr (Some results), st2)"
      "process_result env (aggregate_results env results) VNone st2 = (Inr ret0, st3')"
      "procs st3' = w # ws"
      by simp_all
    have "train env st =
           (case stop_flag (exp_should_stop env (wstate w)) of
              Some b \<Rightarrow> (Inr (setitem ret0 DONE (VBool b)),
                         emit (Call (actor_id w) ShouldStop) st3')
            | None \<Rightarrow> (Inl RayTaskError,
                       kill_workers (emit (Call (actor_id w) ShouldStop) st3')))"
      by (rule train_returns [OF F h])
    with H show "train env st = (Inr (setitem ret0 DONE (VBool b)),
                                     emit (Call (actor_id w) ShouldStop) st3')"
      by simp
  qed
  show ?thesis using F ids ev T W R by blast
qed

lemma sim_pre_dead_train:
  "train sim_pre_dead_env (sim_trainable\<lparr>procs := sim_pool 3 4\<rparr>) =
     (Inr [(''mean_accuracy'', VFloat (1 / 2)), (''extra_val_results'', VList []),
           (''done'', VBool False)],
      sim_trainable\<lparr>first_run := False, procs := sim_pool 4 5,
                    events := [Call 0 PreExperiment, Call 1 PreExperiment,
                               Call 0 RunEpoch, Call 1 RunEpoch, Call 0 ShouldStop]\<rparr>)"
  by (simp add: train_def train_body_def first_run_block_def iteration_block_def
        run_iteration_def dispatch_all_def process_result_def supervised_process_result_def
        should_stop_def emit_def sim_trainable_def sim_pool_def sim_pre_dead_env_def
        sim_env_def check_for_failure.simps(2) DONE_def Let_def)

theorem first_run_pre_experiment_failure_witness:
  "first_run (sim_trainable\<lparr>procs := sim_pool 3 4\<rparr>)
   \<and> iteration (sim_trainable\<lparr>procs := sim_pool 3 4\<rparr>) = 0
   \<and> \<not> restored (sim_trainable\<lparr>procs := sim_pool 3 4\<rparr>)
   \<and> pre_experiment_status sim_pre_dead_env (sim_trainable\<lparr>procs := sim_pool 3 4\<rparr>)
       = [Value (VInt 0), ActorDied]
   \<and> (\<exists>st1. first_run_block sim_pre_dead_env (sim_trainable\<lparr>procs := sim_pool 3 4\<rparr>)
              = (Inr (Inr VNone), st1)
         \<and> map actor_id (procs st1) = [0, 1]
         \<and> (\<exists>es. new_events st1 (snd (train sim_pre_dead_env
                                          (sim_trainable\<lparr>procs := sim_pool 3 4\<rparr>)))
                   = [Call 0 RunEpoch, Call 1 RunEpoch] @ es))
   \<and> train sim_pre_dead_env (sim_trainable\<lparr>procs := sim_pool 3 4\<rparr>) =
       (Inr [(''mean_accuracy'', VFloat (1 / 2)), (''extra_val_results'', VList []),
             (''done'', VBool False)],
        sim_trainable\<lparr>first_run := False, procs := sim_pool 4 5,
                      events := [Call 0 PreExperiment, Call 1 PreExperiment,
                                 Call 0 RunEpoch, Call 1 RunEpoch, Call 0 ShouldStop]\<rparr>)"
proof -
  define S where "S = sim_trainable\<lparr>procs := sim_pool 3 4\<rparr>"
  have P: "pre_experiment_status sim_pre_dead_env S = [Value (VInt 0), ActorDied]"
    by (simp add: S_def pre_experiment_status_def sim_trainable_def sim_pool_def
                  sim_pre_dead_env_def sim_env_def)
  have H: "first_run S" "iteration S = 0" "\<not> restored S" "cls S = Supervised"
    by (simp_all add: S_def sim_trainable_def)
  have I: "map actor_id (procs S) = [0, 1]"
    by (simp add: S_def sim_pool_def)
  have A: "ActorDied \<in> set (pre_experiment_status sim_pre_dead_env S)"
    "TaskFailed \<notin> set (pre_experiment_status sim_pre_dead_env S)"
    unfolding P by simp_all
  from first_run_pre_experiment_failure [OF H(1,2) disjI1 [OF H(3)] A]
  obtain st1 where F: "first_run_block sim_pre_dead_env S = (Inr (Inr VNone), st1)"
    and ids: "map actor_id (procs st1) = map actor_id (procs S)"
    and W: "\<exists>es. new_events st1 (snd (train sim_pre_dead_env S))
                     = map (\<lambda>w. Call (actor_id w) (work_method (cls S))) (procs st1) @ es"
    by blast
  have M: "map (\<lambda>w. Call (actor_id w) (work_method (cls S))) (procs st1)
             = map (\<lambda>a. Call a RunEpoch) (map actor_id (procs st1))"
    by (simp add: H(4) work_method_def comp_def)
  have W': "\<exists>es. new_events st1 (snd (train sim_pre_dead_env S))
                     = [Call 0 RunEpoch, Call 1 RunEpoch] @ es"
    using W unfolding M ids I by simp
  show ?thesis
    unfolding S_def [symmetric]
    using H(1-3) P F ids I W' sim_pre_dead_train [folded S_def] by auto
qed

section \<open>Checkpoint round trip\<close>

lemma ray_get_all_values:
  "\<forall>r\<in>set rs. \<exists>v. r = Value v \<Longrightarrow> \<exists>vs. ray_get_all rs = Inr vs"
  by (induction rs) auto

text \<open>
  C7, as stated, fails: \<^verbatim>\<open>_restore\<close> gives every worker the coordinator's snapshot and
  takes the iteration counter from the coordinator. With workers at counters 3 and 5 and
  the driver at iteration 7, the round trip leaves both workers at 3 and the driver at 3.
\<close>

theorem restore_checkpoint_counterexample:
  "restore_checkpoint sim_env (sim_trainable\<lparr>iteration := 7, procs := sim_pool 3 5\<rparr>) =
     (Inr (), sim_trainable\<lparr>iteration := 3, procs := sim_pool 3 3,
                events := [Call 0 GetState, Call 0 (SetState (VInt 3)),
                           Call 1 (SetState (VInt 3)), Call 0 GetCurrentEpoch]\<rparr>)
   \<and> iteration (sim_trainable\<lparr>iteration := 3, procs := sim_pool 3 3\<rparr>)
       \<noteq> iteration (sim_trainable\<lparr>iteration := 7, procs := sim_pool 3 5\<rparr>)
   \<and> map wstate (sim_pool 3 3) \<noteq> map wstate (sim_pool 3 5)"
  by (simp add: restore_checkpoint_def save_def restore_def dispatch_all_def emit_def
        sim_trainable_def sim_pool_def sim_env_def)

text \<open>
  C7, amended. When the workers are synchronised (each reports the snapshot the
  coordinator reports), the iteration counter equals the epoch the coordinator reports,
  and the experiment class restores a worker's own snapshot to the state it had, then
  \<^verbatim>\<open>restore(checkpoint())\<close> succeeds and leaves the iteration counter and every
  worker's state as they were.
\<close>

theorem restore_checkpoint_roundtrip:
  assumes "procs st = w0 # ws"
    and "\<forall>w\<in>set (procs st). exp_get_state env (wstate w) = Value blob"
    and "\<forall>s b. exp_get_state env s = Value b \<longrightarrow> exp_set_state env b s = (Value (), s)"
    and "exp_get_current_epoch env (wstate w0) = Value (iteration st)"
  shows "\<exists>st'. restore_checkpoint env st = (Inr (), st')
           \<and> iteration st' = iteration st \<and> procs st' = procs st"
proof -
  have S: "save env st = (Inr blob, emit (Call (actor_id w0) GetState) st)"
    using assms(1,2) by (simp add: save_def)
  define st1 where "st1 = emit (Call (actor_id w0) GetState) st"
  have p1: "procs st1 = procs st" by (simp add: st1_def emit_def)
  have set: "\<forall>w\<in>set (procs st1). exp_set_state env blob (wstate w) = (Value (), wstate w)"
    using assms(2,3) p1 by simp
  have m1: "map (\<lambda>w. fst (exp_set_state env blob (wstate w))) (procs st1)
              = map (\<lambda>w. Value ()) (procs st1)"
    using set by simp
  have m2: "map (\<lambda>w. w\<lparr>wstate := snd (exp_set_state env blob (wstate w))\<rparr>) (procs st1)
              = procs st1"
    using set by (simp add: map_idI)
  obtain vs where G: "ray_get_all (map (\<lambda>w. Value ()) (procs st1)) = Inr (vs :: unit list)"
    using ray_get_all_values [of "map (\<lambda>w. Value ()) (procs st1)"] by auto
  have D: "dispatch_all (exp_set_state env blob) (SetState blob) st1 =
           (map (\<lambda>w. Value ()) (procs st1),
            st1\<lparr>events := events st1
                    @ map (\<lambda>w. Call (actor_id w) (SetState blob)) (procs st1)\<rparr>)"
    unfolding dispatch_all_def m1 m2 by simp
  have R: "restore env blob st1 =
     (Inr (), (emit (Call (actor_id w0) GetCurrentEpoch)
       (st1\<lparr>events := events st1
               @ map (\<lambda>w. Call (actor_id w) (SetState blob)) (procs st1)\<rparr>))
        \<lparr>iteration := iteration st\<rparr>)"
    unfolding restore_def D using G assms(1,4) p1 by (simp add: emit_def)
  show ?thesis
    unfolding restore_checkpoint_def S st1_def [symmetric] using R p1
    by (simp add: emit_def st1_def)
qed

theorem restore_checkpoint_roundtrip_witness:
  "map (\<lambda>w. exp_get_state sim_env (wstate w)) (sim_pool 3 3)
     = [Value (VInt 3), Value (VInt 3)]
   \<and> exp_get_current_epoch sim_env 3 = Value 3
   \<and> (\<exists>st'. restore_checkpoint sim_env (sim_trainable\<lparr>iteration := 3, procs := sim_pool 3 3\<rparr>)
              = (Inr (), st')
         \<and> iteration st' = 3 \<and> procs st' = sim_pool 3 3)"
proof -
  have A: "procs (sim_trainable\<lparr>iteration := 3, procs := sim_pool 3 3\<rparr>)
             = \<lparr>actor_id = 0, wstate = 3\<rparr> # [\<lparr>actor_id = 1, wstate = 3\<rparr>]"
    by (simp add: sim_pool_def)
  have B: "\<forall>w\<in>set (procs (sim_trainable\<lparr>iteration := 3, procs := sim_pool 3 3\<rparr>)).
             exp_get_state sim_env (wstate w) = Value (VInt 3)"
    by (simp add: sim_pool_def sim_env_def)
  have C: "\<forall>s b. exp_get_state sim_env s = Value b
             \<longrightarrow> exp_set_state sim_env b s = (Value (), s)"
    by (auto simp: sim_env_def)
  have D: "exp_get_current_epoch sim_env (wstate \<lparr>actor_id = 0, wstate = 3\<rparr>)
             = Value (iteration (sim_trainable\<lparr>iteration := 3, procs := sim_pool 3 3\<rparr>))"
    by (simp add: sim_env_def)
  show ?thesis
    using restore_checkpoint_roundtrip [OF A B C D] B D by (simp add: sim_pool_def)
qed

section \<open>Reporting to the tuning service\<close>

lemma has_key_setitem: "has_key (setitem d k v) k' = (k' = k \<or> has_key d k')"
  by (simp add: has_key_def map_of_setitem)

lemma getitem_has_key: "has_key d k \<Longrightarrow> \<exists>v. getitem d k = Inr v"
  by (auto simp: has_key_def getitem_def)

lemma observation_values_ok:
  "\<forall>name\<in>set names. \<exists>k. name = VStr k \<and> has_key r k \<Longrightarrow>
   \<exists>vals. observation_values r names = Inr vals \<and> length vals = length names
     \<and> (\<forall>i<length names. \<exists>v. getitem_val r (names ! i) = Inr v
            \<and> vals ! i = [(''name'', names ! i), (''value'', v)])"
proof (induction names)
  case Nil
  show ?case by simp
next
  case (Cons name names)
  from Cons.prems obtain k where k: "name = VStr k" "has_key r k" by auto
  then obtain v where v: "getitem r k = Inr v" using getitem_has_key by blast
  from Cons obtain vals where IH: "observation_values r names = Inr vals"
    "length vals = length names"
    "\<forall>i<length names. \<exists>v. getitem_val r (names ! i) = Inr v
            \<and> vals ! i = [(''name'', names ! i), (''value'', v)]" by auto
  have E: "observation_values r (name # names) = Inr ([(''name'', name), (''value'', v)] # vals)"
    using k v IH(1) by simp
  have "\<forall>i<length (name # names). \<exists>va. getitem_val r ((name # names) ! i) = Inr va
            \<and> ([(''name'', name), (''value'', v)] # vals) ! i
                = [(''name'', (name # names) ! i), (''value'', va)]"
  proof (intro allI impI)
    fix i assume "i < length (name # names)"
    then show "\<exists>va. getitem_val r ((name # names) ! i) = Inr va
            \<and> ([(''name'', name), (''value'', v)] # vals) ! i
                = [(''name'', (name # names) ! i), (''value'', va)]"
      using k v IH(3) by (cases i) auto
  qed
  then show ?case using E IH(2) by simp
qed

text \<open>
  C8, as stated, fails: the values are read with \<^verbatim>\<open>result[name]\<close>, so a configured
  metric name that the aggregated result does not have raises KeyError and no
  observation is sent, although the accuracy metric is configured, present and positive
  and the last epoch is reached.
\<close>

theorem sigopt_final_observation_counterexample:
  "VStr ''mean_accuracy'' \<in> set (metric_names
       (sim_sigopt_trainable [VStr ''mean_accuracy'', VStr ''loss'']))
   \<and> last_epoch_reached sim_env
         (iteration (sim_sigopt_trainable [VStr ''mean_accuracy'', VStr ''loss'']))
         (epochs (sim_sigopt_trainable [VStr ''mean_accuracy'', VStr ''loss''])) = Inr True
   \<and> process_result sim_env [(''mean_accuracy'', VFloat (1 / 2))] VNone
       (sim_sigopt_trainable [VStr ''mean_accuracy'', VStr ''loss'']) =
     (Inl (KeyError (VStr ''loss'')),
      sim_sigopt_trainable [VStr ''mean_accuracy'', VStr ''loss''])"
  by (simp add: process_result_def sigopt_process_result_def supervised_process_result_def
        sim_sigopt_trainable_def sim_trainable_def getitem_def dict_get_def Let_def)

text \<open>
  C8, amended. For the tuning-integrated class with a client present and the accuracy
  metric among the metric names, on a step whose iteration counter has reached the epoch
  total minus one (the comparison \<^verbatim>\<open>iteration >= epochs - 1\<close> as Python evaluates it)
  and whose accuracy is positive, provided the inherited post-processing succeeds and
  every configured metric name is a key of the result: exactly one observation is
  reported, with one name/value entry per configured metric name in order, and the
  result has \<^verbatim>\<open>early_stop\<close> set to 1.0.
\<close>

theorem sigopt_final_observation:
  assumes "cls st = SigOptSupervised" and "sigopt st = Some sg"
    and "VStr ''mean_accuracy'' \<in> set (metric_names st)"
    and "last_epoch_reached env (iteration st) (epochs st) = Inr True"
    and "supervised_process_result result pre = Inr result1"
    and "\<forall>name\<in>set (metric_names st). \<exists>k. name = VStr k \<and> has_key result1 k"
    and "getitem result1 ''mean_accuracy'' = Inr acc" and "py_gt0 acc = Inr True"
  shows "\<exists>result' vals.
           process_result env result pre st =
             (Inr result', st\<lparr>events := events st @ [UpdateObservation (suggestion st) vals]\<rparr>)
           \<and> map_of result' ''early_stop'' = Some (VFloat 1)
           \<and> length vals = length (metric_names st)
           \<and> (\<forall>i<length (metric_names st). \<exists>v.
                  getitem_val result' (metric_names st ! i) = Inr v
                  \<and> vals ! i = [(''name'', metric_names st ! i), (''value'', v)])"
proof -
  define result2
    where "result2 = setitem result1 ''early_stop'' (dict_get result1 ''early_stop'' (VFloat 0))"
  define result3 where "result3 = setitem result2 ''early_stop'' (VFloat 1)"
  have keys: "\<forall>name\<in>set (metric_names st). \<exists>k. name = VStr k \<and> has_key result3 k"
    using assms(6) by (auto simp: result3_def result2_def has_key_setitem)
  have acc: "getitem result3 ''mean_accuracy'' = Inr acc"
    using assms(7)
    by (auto simp: getitem_def result3_def result2_def map_of_setitem split: option.splits)
  from observation_values_ok [OF keys] obtain vals where
    V: "observation_values result3 (metric_names st) = Inr vals"
    "length vals = length (metric_names st)"
    "\<forall>i<length (metric_names st). \<exists>v. getitem_val result3 (metric_names st ! i) = Inr v
            \<and> vals ! i = [(''name'', metric_names st ! i), (''value'', v)]" by blast
  have P: "process_result env result pre st =
      (Inr result3, st\<lparr>events := events st @ [UpdateObservation (suggestion st) vals]\<rparr>)"
    using assms(1,2,4,5,8) acc V(1)
    by (simp add: process_result_def sigopt_process_result_def emit_def Let_def
          result2_def [symmetric] result3_def [symmetric])
  have E: "map_of result3 ''early_stop'' = Some (VFloat 1)"
    by (simp add: result3_def map_of_setitem)
  show ?thesis using P E V(2,3) by blast
qed

theorem sigopt_final_observation_witness:
  "cls (sim_sigopt_trainable [VStr ''mean_accuracy'', VStr ''loss'']) = SigOptSupervised
   \<and> sigopt (sim_sigopt_trainable [VStr ''mean_accuracy'', VStr ''loss'']) \<noteq> None
   \<and> metric_names (sim_sigopt_trainable [VStr ''mean_accuracy'', VStr ''loss''])
       = [VStr ''mean_accuracy'', VStr ''loss'']
   \<and> last_epoch_reached sim_env
         (iteration (sim_sigopt_trainable [VStr ''mean_accuracy'', VStr ''loss'']))
         (epochs (sim_sigopt_trainable [VStr ''mean_accuracy'', VStr ''loss''])) = Inr True
   \<and> (\<exists>result' vals.
         process_result sim_env
             [(''mean_accuracy'', VFloat (1 / 2)), (''loss'', VFloat (1 / 4))] VNone
             (sim_sigopt_trainable [VStr ''mean_accuracy'', VStr ''loss'']) =
           (Inr result',
            (sim_sigopt_trainable [VStr ''mean_accuracy'', VStr ''loss''])
              \<lparr>events := [UpdateObservation VNone vals]\<rparr>)
         \<and> map_of result' ''early_stop'' = Some (VFloat 1)
         \<and> length vals = 2
         \<and> vals ! 0 = [(''name'', VStr ''mean_accuracy''), (''value'', VFloat (1 / 2))]
         \<and> vals ! 1 = [(''name'', VStr ''loss''), (''value'', VFloat (1 / 4))])"
proof -
  define S where "S = sim_sigopt_trainable [VStr ''mean_accuracy'', VStr ''loss'']"
  define R where "R = [(''mean_accuracy'', VFloat (1 / 2)), (''loss'', VFloat (1 / 4))]"
  have H: "cls S = SigOptSupervised"
    "sigopt S = Some \<lparr>sigopt_class = SigOptExperiment, experiment_id = VInt 1,
                      sigopt_config = VDict []\<rparr>"
    "VStr ''mean_accuracy'' \<in> set (metric_names S)"
    "last_epoch_reached sim_env (iteration S) (epochs S) = Inr True"
    "supervised_process_result R VNone = Inr R"
    "\<forall>name\<in>set (metric_names S). \<exists>k. name = VStr k \<and> has_key R k"
    "getitem R ''mean_accuracy'' = Inr (VFloat (1 / 2))"
    "py_gt0 (VFloat (1 / 2)) = Inr True"
    by (simp_all add: S_def R_def sim_sigopt_trainable_def sim_trainable_def
          supervised_process_result_def has_key_def getitem_def)
  have M: "metric_names S = [VStr ''mean_accuracy'', VStr ''loss'']"
    "events S = []" "suggestion S = VNone"
    by (simp_all add: S_def sim_sigopt_trainable_def sim_trainable_def)
  from sigopt_final_observation [OF H] obtain result' vals where
    C: "process_result sim_env R VNone S =
          (Inr result', S\<lparr>events := events S @ [UpdateObservation (suggestion S) vals]\<rparr>)"
    "map_of result' ''early_stop'' = Some (VFloat 1)"
    "length vals = length (metric_names S)"
    "\<forall>i<length (metric_names S). \<exists>v.
        getitem_val result' (metric_names S ! i) = Inr v
        \<and> vals ! i = [(''name'', metric_names S ! i), (''value'', v)]"
    by blast
  have res: "result' = [(''mean_accuracy'', VFloat (1 / 2)), (''loss'', VFloat (1 / 4)),
                        (''early_stop'', VFloat 1)]"
    using C(1)
    by (simp add: process_result_def sigopt_process_result_def supervised_process_result_def
          S_def R_def sim_sigopt_trainable_def sim_trainable_def getitem_def dict_get_def
          emit_def Let_def)
  have "(0::nat) < length (metric_names S)" "(1::nat) < length (metric_names S)"
    by (simp_all add: M)
  with C(4) have V: "vals ! 0 = [(''name'', VStr ''mean_accuracy''), (''value'', VFloat (1 / 2))]"
    "vals ! 1 = [(''name'', VStr ''loss''), (''value'', VFloat (1 / 4))]"
    unfolding res M by (auto simp: getitem_def)
  show ?thesis
    unfolding S_def [symmetric] R_def [symmetric]
    using H(1,2,4) M C(1,2,3) V by auto
qed

section \<open>Pool creation: one attempt\<close>

lemma spawn_all_eq:
  "spawn_all env a b n st =
     st\<lparr>procs := procs st @ map (\<lambda>i. \<lparr>actor_id = next_actor st + i,
                                      wstate = exp_new env (next_actor st + i) a b\<rparr>) [0..<n],
        next_actor := next_actor st + n,
        events := events st @ map (\<lambda>i. Spawn (next_actor st + i)) [0..<n]\<rparr>"
proof (induction n arbitrary: st)
  case 0
  show ?case by simp
next
  case (Suc n)
  have M: "\<And>f :: nat \<Rightarrow> 'b. map f [0..<Suc n] = f 0 # map (\<lambda>i. f (Suc i)) [0..<n]"
    by (simp add: upt_conv_Cons map_Suc_upt [symmetric] del: upt_Suc)
  show ?case
    unfolding spawn_all.simps Suc.IH M
    by (simp add: spawn_def)
qed

lemma configure_worker_eq:
  assumes "c < length (heap st)" and "rank < length (procs st)"
  shows "configure_worker env c url ws rank st =
     (fst (exp_setup_experiment env (worker_config (heap st ! c) url ws rank)
             (wstate (procs st ! rank))),
      st\<lparr>heap := heap st @ [worker_config (heap st ! c) url ws rank],
         events := events st @ [Call (actor_id (procs st ! rank))
                                  (SetupExperiment (worker_config (heap st ! c) url ws rank))],
         procs := (procs st)[rank := (procs st ! rank)
                     \<lparr>wstate := snd (exp_setup_experiment env
                                       (worker_config (heap st ! c) url ws rank)
                                       (wstate (procs st ! rank)))\<rparr>]\<rparr>)"
  using assms
  by (simp add: configure_worker_def deepcopy_def heap_setitem_def emit_def worker_config_def
        Let_def nth_append)

lemma configure_all_eq:
  assumes "c < length (heap st)" and "n = length (procs st)" and "i \<le> n"
  shows "configure_all env c url ws [i..<n] status st =
     (status @ map (\<lambda>r. fst (exp_setup_experiment env (worker_config (heap st ! c) url ws r)
                              (wstate (procs st ! r)))) [i..<n],
      st\<lparr>heap := heap st @ map (worker_config (heap st ! c) url ws) [i..<n],
         events := events st @ map (\<lambda>r. Call (actor_id (procs st ! r))
                      (SetupExperiment (worker_config (heap st ! c) url ws r))) [i..<n],
         procs := take i (procs st) @ map (\<lambda>r. (procs st ! r)
                     \<lparr>wstate := snd (exp_setup_experiment env
                                       (worker_config (heap st ! c) url ws r)
                                       (wstate (procs st ! r)))\<rparr>) [i..<n]\<rparr>)"
  using assms
proof (induction "n - i" arbitrary: i st status)
  case 0
  then show ?case by simp
next
  case (Suc k)
  then have lt: "i < n" by simp
  define cfg where "cfg = heap st ! c"
  define upd where "upd = (\<lambda>r. (procs st ! r)
                     \<lparr>wstate := snd (exp_setup_experiment env (worker_config cfg url ws r)
                                       (wstate (procs st ! r)))\<rparr>)"
  define sta where "sta = st\<lparr>heap := heap st @ [worker_config cfg url ws i],
         events := events st @ [Call (actor_id (procs st ! i))
                                  (SetupExperiment (worker_config cfg url ws i))],
         procs := (procs st)[i := upd i]\<rparr>"
  have W: "configure_worker env c url ws i st =
     (fst (exp_setup_experiment env (worker_config cfg url ws i) (wstate (procs st ! i))), sta)"
    using configure_worker_eq [of c st i env url ws] Suc.prems lt
    by (simp add: sta_def cfg_def upd_def)
  have h: "heap sta ! c = cfg" using Suc.prems(1) by (simp add: sta_def cfg_def nth_append)
  have pa: "\<And>r. Suc i \<le> r \<Longrightarrow> procs sta ! r = procs st ! r" by (simp add: sta_def)
  have aid: "\<And>r. actor_id (procs sta ! r) = actor_id (procs st ! r)"
    using lt Suc.prems(2) by (simp add: sta_def upd_def nth_list_update)
  have IH: "configure_all env c url ws [Suc i..<n] st0 sta =
     (st0 @ map (\<lambda>r. fst (exp_setup_experiment env (worker_config (heap sta ! c) url ws r)
                              (wstate (procs sta ! r)))) [Suc i..<n],
      sta\<lparr>heap := heap sta @ map (worker_config (heap sta ! c) url ws) [Suc i..<n],
         events := events sta @ map (\<lambda>r. Call (actor_id (procs sta ! r))
                      (SetupExperiment (worker_config (heap sta ! c) url ws r))) [Suc i..<n],
         procs := take (Suc i) (procs sta) @ map (\<lambda>r. (procs sta ! r)
                     \<lparr>wstate := snd (exp_setup_experiment env
                                       (worker_config (heap sta ! c) url ws r)
                                       (wstate (procs sta ! r)))\<rparr>) [Suc i..<n]\<rparr>)" for st0
    using Suc.hyps(1) [of "Suc i" sta st0] Suc.hyps(2) Suc.prems lt
    by (simp add: sta_def)
  have m1: "map (\<lambda>r. fst (exp_setup_experiment env (worker_config cfg url ws r)
                              (wstate (procs sta ! r)))) [Suc i..<n]
          = map (\<lambda>r. fst (exp_setup_experiment env (worker_config cfg url ws r)
                              (wstate (procs st ! r)))) [Suc i..<n]"
    by (rule map_cong) (simp_all add: pa)
  have m2: "map (\<lambda>r. (procs sta ! r)
                     \<lparr>wstate := snd (exp_setup_experiment env
                                       (worker_config cfg url ws r)
                                       (wstate (procs sta ! r)))\<rparr>) [Suc i..<n]
          = map upd [Suc i..<n]"
    unfolding upd_def by (rule map_cong) (simp_all add: pa)
  have tk: "take (Suc i) (procs sta) = take i (procs st) @ [upd i]"
    using lt Suc.prems(2) by (simp add: sta_def take_Suc_conv_app_nth)
  have U: "[i..<n] = i # [Suc i..<n]" using lt by (simp add: upt_conv_Cons)
  show ?case
    unfolding U configure_all.simps W
    apply (simp add: IH h m1 m2 tk aid)
    apply (simp add: sta_def cfg_def upd_def)
    done
qed

lemma create_attempt_eq:
  assumes "c < length (heap st)" and "py_range ws = Inr n" and "0 < n"
    and "attempt_url env (heap st ! c) ncpu ngpu (next_actor st) = Inr url"
  shows "create_attempt env c ws ncpu ngpu st =
     (check_for_failure (ray_wait env)
        (setup_status env (heap st ! c) ws ncpu ngpu n (next_actor st) url),
      st\<lparr>procs := attempt_pool env (heap st ! c) ws ncpu ngpu n (next_actor st) url,
         next_actor := next_actor st + n,
         events := events st @ attempt_events env (heap st ! c) ws ncpu ngpu n (next_actor st),
         heap := heap st @ map (worker_config (heap st ! c) url ws) [0..<n]\<rparr>)"
proof -
  define base where "base = next_actor st"
  define cfg where "cfg = heap st ! c"
  define new where "new = (\<lambda>i. \<lparr>actor_id = base + i, wstate = exp_new env (base + i) ncpu ngpu\<rparr>)"
  define st2 where "st2 = spawn_all env ncpu ngpu n (st\<lparr>procs := []\<rparr>)"
  have st2: "st2 = st\<lparr>procs := map new [0..<n], next_actor := base + n,
                      events := events st @ map (\<lambda>i. Spawn (base + i)) [0..<n]\<rparr>"
    unfolding st2_def spawn_all_eq by (simp add: new_def base_def)
  have hd: "procs st2 = new 0 # map new [1..<n]"
    using assms(3) by (simp add: st2 upt_conv_Cons)
  from assms(4) obtain ip port0 where
    ip: "ray_get (exp_get_node_ip env (exp_new env base ncpu ngpu)) = Inr ip"
    and port: "ray_get (exp_get_free_port env (exp_new env base ncpu ngpu)) = Inr port0"
    and url: "url = ''tcp://'' @ py_str env ip @ '':'' @ py_str env (dict_get cfg ''dist_port'' port0)"
    by (auto simp: attempt_url_def base_def cfg_def split: sum.splits)
  define st4 where "st4 = emit (Call base GetFreePort) (emit (Call base GetNodeIp) st2)"
  have c4: "c < length (heap st4)" "heap st4 ! c = cfg" "heap st4 = heap st"
    using assms(1) by (simp_all add: st4_def emit_def st2 cfg_def)
  have p4: "procs st4 = map new [0..<n]" by (simp add: st4_def emit_def st2)
  have l4: "length (procs st4) = n" by (simp add: p4)
  have CA: "configure_all env c url ws [0..<n] [] st4 =
     (map (\<lambda>r. fst (exp_setup_experiment env (worker_config cfg url ws r)
                              (wstate (procs st4 ! r)))) [0..<n],
      st4\<lparr>heap := heap st4 @ map (worker_config cfg url ws) [0..<n],
         events := events st4 @ map (\<lambda>r. Call (actor_id (procs st4 ! r))
                      (SetupExperiment (worker_config cfg url ws r))) [0..<n],
         procs := map (\<lambda>r. (procs st4 ! r)
                     \<lparr>wstate := snd (exp_setup_experiment env
                                       (worker_config cfg url ws r)
                                       (wstate (procs st4 ! r)))\<rparr>) [0..<n]\<rparr>)"
    using configure_all_eq [of c st4 n 0 env url ws "[]"] c4 l4 by simp
  have n4: "\<And>r. r < n \<Longrightarrow> procs st4 ! r = new r" by (simp add: p4)
  have m1: "map (\<lambda>r. fst (exp_setup_experiment env (worker_config cfg url ws r)
                              (wstate (procs st4 ! r)))) [0..<n]
            = setup_status env cfg ws ncpu ngpu n base url"
    unfolding setup_status_def by (rule map_cong) (simp_all add: n4 new_def)
  have m2: "map (\<lambda>r. Call (actor_id (procs st4 ! r))
                      (SetupExperiment (worker_config cfg url ws r))) [0..<n]
            = map (\<lambda>rank. Call (base + rank) (SetupExperiment (worker_config cfg url ws rank))) [0..<n]"
    by (rule map_cong) (simp_all add: n4 new_def)
  have m3: "map (\<lambda>r. (procs st4 ! r)
                     \<lparr>wstate := snd (exp_setup_experiment env
                                       (worker_config cfg url ws r)
                                       (wstate (procs st4 ! r)))\<rparr>) [0..<n]
            = attempt_pool env cfg ws ncpu ngpu n base url"
    unfolding attempt_pool_def by (rule map_cong) (simp_all add: n4 new_def)
  have ev: "attempt_events env cfg ws ncpu ngpu n base =
      map (\<lambda>i. Spawn (base + i)) [0..<n] @ [Call base GetNodeIp, Call base GetFreePort]
      @ map (\<lambda>rank. Call (base + rank) (SetupExperiment (worker_config cfg url ws rank))) [0..<n]"
    using assms(3,4) ip by (simp add: attempt_events_def base_def cfg_def)
  have E1: "create_attempt env c ws ncpu ngpu st =
     (case configure_all env c url ws [0..<n] [] st4 of
        (status, x) \<Rightarrow> (check_for_failure (ray_wait env) status, x))"
    unfolding create_attempt_def
    using assms(2) hd ip port
    by (simp add: st2_def [symmetric] Let_def new_def st4_def [symmetric] l4 c4(2) url)
  have "create_attempt env c ws ncpu ngpu st =
     (check_for_failure (ray_wait env) (setup_status env cfg ws ncpu ngpu n base url),
      st4\<lparr>heap := heap st4 @ map (worker_config cfg url ws) [0..<n],
         events := events st4 @ map (\<lambda>rank. Call (base + rank)
                      (SetupExperiment (worker_config cfg url ws rank))) [0..<n],
         procs := attempt_pool env cfg ws ncpu ngpu n base url\<rparr>)"
    unfolding E1 CA m1 m2 m3 by simp
  also have "st4\<lparr>heap := heap st4 @ map (worker_config cfg url ws) [0..<n],
         events := events st4 @ map (\<lambda>rank. Call (base + rank)
                      (SetupExperiment (worker_config cfg url ws rank))) [0..<n],
         procs := attempt_pool env cfg ws ncpu ngpu n base url\<rparr>
      = st\<lparr>procs := attempt_pool env cfg ws ncpu ngpu n base url,
         next_actor := base + n,
         events := events st @ attempt_events env cfg ws ncpu ngpu n base,
         heap := heap st @ map (worker_config cfg url ws) [0..<n]\<rparr>"
    unfolding ev by (simp add: st4_def emit_def st2)
  finally show ?thesis unfolding base_def cfg_def .
qed

lemma attempt_result_InrD:
  assumes "attempt_result env cfg ws ncpu ngpu base = Inr b"
  shows "\<exists>n url. py_range ws = Inr n \<and> 0 < n \<and> attempt_url env cfg ncpu ngpu base = Inr url
           \<and> check_for_failure (ray_wait env) (setup_status env cfg ws ncpu ngpu n base url) = Inr b"
  using assms by (auto simp: attempt_result_def split: sum.splits if_splits)

lemma create_attempt_raise:
  assumes "c < length (heap st)" and "py_range ws = Inr n" and "0 < n"
    and "attempt_url env (heap st ! c) ncpu ngpu (next_actor st) = Inl e"
  shows "\<exists>st'. create_attempt env c ws ncpu ngpu st = (Inl e, st') \<and> heap st' = heap st"
proof -
  define base where "base = next_actor st"
  define new where "new = (\<lambda>i. \<lparr>actor_id = base + i, wstate = exp_new env (base + i) ncpu ngpu\<rparr>)"
  define st2 where "st2 = spawn_all env ncpu ngpu n (st\<lparr>procs := []\<rparr>)"
  have st2: "st2 = st\<lparr>procs := map new [0..<n], next_actor := base + n,
                      events := events st @ map (\<lambda>i. Spawn (base + i)) [0..<n]\<rparr>"
    unfolding st2_def spawn_all_eq by (simp add: new_def base_def)
  have hd: "procs st2 = new 0 # map new [1..<n]"
    using assms(3) by (simp add: st2 upt_conv_Cons)
  have h2: "heap st2 = heap st" by (simp add: st2)
  show ?thesis
    unfolding create_attempt_def
    using assms(2,4) hd h2
    by (auto simp: st2_def [symmetric] Let_def new_def emit_def attempt_url_def base_def
             split: sum.splits)
qed

lemma create_attempt_fst:
  assumes "c < length (heap st)"
  shows "fst (create_attempt env c ws ncpu ngpu st)
           = attempt_result env (heap st ! c) ws ncpu ngpu (next_actor st)"
proof (cases "py_range ws")
  case (Inl e)
  then show ?thesis by (simp add: create_attempt_def attempt_result_def)
next
  case (Inr n)
  show ?thesis
  proof (cases "n = 0")
    case True
    with Inr show ?thesis by (simp add: create_attempt_def attempt_result_def)
  next
    case False
    then have n: "0 < n" by simp
    show ?thesis
    proof (cases "attempt_url env (heap st ! c) ncpu ngpu (next_actor st)")
      case (Inl e)
      from create_attempt_raise [OF assms Inr n Inl] Inr n Inl
      show ?thesis by (auto simp: attempt_result_def)
    next
      case url: (Inr url)
      from create_attempt_eq [OF assms Inr n url] Inr n url
      show ?thesis by (simp add: attempt_result_def)
    qed
  qed
qed


section \<open>Pool creation: the retry loop\<close>

lemma failed_round_state:
  assumes "c < length (heap st)" and "py_range ws = Inr n"
    and "attempt_result env (heap st ! c) ws ncpu ngpu (next_actor st) = Inr b"
  shows "\<exists>st1 url H. create_attempt env c ws ncpu ngpu st = (Inr b, st1)
           \<and> 0 < n
           \<and> attempt_url env (heap st ! c) ncpu ngpu (next_actor st) = Inr url
           \<and> procs st1 = attempt_pool env (heap st ! c) ws ncpu ngpu n (next_actor st) url
           \<and> events st1 = events st @ attempt_events env (heap st ! c) ws ncpu ngpu n (next_actor st)
           \<and> heap st1 = heap st @ map (worker_config (heap st ! c) url ws) [0..<n]
           \<and> next_actor st1 = next_actor st + n
           \<and> max_retries st1 = max_retries st"
proof -
  from attempt_result_InrD [OF assms(3)] assms(2) obtain url where
    n: "0 < n" and url: "attempt_url env (heap st ! c) ncpu ngpu (next_actor st) = Inr url"
    and cff: "check_for_failure (ray_wait env)
                (setup_status env (heap st ! c) ws ncpu ngpu n (next_actor st) url) = Inr b"
    by auto
  show ?thesis
    using create_attempt_eq [OF assms(1,2) n url] cff n url by simp
qed

lemma map_upt_Suc': "map f [0..<Suc k] = f 0 # map (\<lambda>j. f (Suc j)) [0..<k]"
  by (simp add: upt_conv_Cons map_Suc_upt [symmetric] del: upt_Suc)

lemma create_loop_retries:
  assumes "c < length (heap st)" and "py_range ws = Inr n"
    and "\<forall>j<k. attempt_result env (heap st ! c) ws ncpu ngpu (next_actor st + j * n) = Inr False"
    and "attempt_result env (heap st ! c) ws ncpu ngpu (next_actor st + k * n) = Inr True"
    and "k < m"
  shows "\<exists>st' url H. create_loop env c ws ncpu ngpu i m st = (Inr (), st')
           \<and> 0 < n
           \<and> attempt_url env (heap st ! c) ncpu ngpu (next_actor st + k * n) = Inr url
           \<and> procs st' = attempt_pool env (heap st ! c) ws ncpu ngpu n (next_actor st + k * n) url
           \<and> events st' = events st
                @ concat (map (\<lambda>j. failed_round_events env (heap st ! c) ws ncpu ngpu n
                                      (next_actor st + j * n) (i + j)) [0..<k])
                @ attempt_events env (heap st ! c) ws ncpu ngpu n (next_actor st + k * n)
           \<and> heap st' = heap st @ H @ map (worker_config (heap st ! c) url ws) [0..<n]"
  using assms
proof (induction k arbitrary: i m st)
  case 0
  then obtain m' where m: "m = Suc m'" by (cases m) auto
  from failed_round_state [OF "0.prems"(1,2), of env ncpu ngpu True] "0.prems"(4)
  obtain st1 url where A: "create_attempt env c ws ncpu ngpu st = (Inr True, st1)"
    "0 < n" "attempt_url env (heap st ! c) ncpu ngpu (next_actor st) = Inr url"
    "procs st1 = attempt_pool env (heap st ! c) ws ncpu ngpu n (next_actor st) url"
    "events st1 = events st @ attempt_events env (heap st ! c) ws ncpu ngpu n (next_actor st)"
    "heap st1 = heap st @ map (worker_config (heap st ! c) url ws) [0..<n]"
    by auto
  have "heap st1 = heap st @ [] @ map (worker_config (heap st ! c) url ws) [0..<n]"
    using A(6) by simp
  then show ?case using A(1-5) unfolding m by auto
next
  case (Suc k)
  then obtain m' where m: "m = Suc m'" and km: "k < m'" by (cases m) auto
  define cfg where "cfg = heap st ! c"
  define base where "base = next_actor st"
  have f0: "attempt_result env cfg ws ncpu ngpu base = Inr False"
    using Suc.prems(3) by (auto simp: cfg_def base_def dest: spec [of _ 0])
  from failed_round_state [OF Suc.prems(1,2), of env ncpu ngpu False] f0
  obtain st1 url0 where A: "create_attempt env c ws ncpu ngpu st = (Inr False, st1)"
    "0 < n"
    "procs st1 = attempt_pool env cfg ws ncpu ngpu n base url0"
    "events st1 = events st @ attempt_events env cfg ws ncpu ngpu n base"
    "heap st1 = heap st @ map (worker_config cfg url0 ws) [0..<n]"
    "next_actor st1 = base + n"
    by (auto simp: cfg_def base_def)
  define st2 where "st2 = emit (Sleep (2 ^ i)) (kill_workers st1)"
  have h2: "heap st2 = heap st @ map (worker_config cfg url0 ws) [0..<n]"
    by (simp add: st2_def emit_def kill_workers_def A(5))
  have c2: "c < length (heap st2)" "heap st2 ! c = cfg"
    using Suc.prems(1) by (simp_all add: h2 nth_append cfg_def)
  have n2: "next_actor st2 = base + n" by (simp add: st2_def emit_def kill_workers_def A(6))
  have e2: "events st2 = events st @ failed_round_events env cfg ws ncpu ngpu n base i"
    by (simp add: st2_def emit_def kill_workers_def A(3,4) failed_round_events_def
          attempt_pool_def comp_def)
  have fj: "\<forall>j<k. attempt_result env (heap st2 ! c) ws ncpu ngpu (next_actor st2 + j * n) = Inr False"
  proof (intro allI impI)
    fix j assume "j < k"
    then have "Suc j < Suc k" by simp
    with Suc.prems(3)
    have "attempt_result env (heap st ! c) ws ncpu ngpu (next_actor st + Suc j * n) = Inr False"
      by blast
    then have "attempt_result env cfg ws ncpu ngpu (base + Suc j * n) = Inr False"
      by (simp only: cfg_def base_def)
    then show "attempt_result env (heap st2 ! c) ws ncpu ngpu (next_actor st2 + j * n) = Inr False"
      by (simp add: c2 n2 add.assoc)
  qed
  have fk: "attempt_result env (heap st2 ! c) ws ncpu ngpu (next_actor st2 + k * n) = Inr True"
    using Suc.prems(4) by (simp add: c2 n2 cfg_def base_def add.assoc)
  from Suc.IH [OF c2(1) Suc.prems(2) fj fk km, of "Suc i"]
  obtain st' url H where B:
    "create_loop env c ws ncpu ngpu (Suc i) m' st2 = (Inr (), st')"
    "attempt_url env cfg ncpu ngpu (base + n + k * n) = Inr url"
    "procs st' = attempt_pool env cfg ws ncpu ngpu n (base + n + k * n) url"
    "events st' = events st2
        @ concat (map (\<lambda>j. failed_round_events env cfg ws ncpu ngpu n
                              (base + n + j * n) (Suc i + j)) [0..<k])
        @ attempt_events env cfg ws ncpu ngpu n (base + n + k * n)"
    "heap st' = heap st2 @ H @ map (worker_config cfg url ws) [0..<n]"
    unfolding c2 n2 by blast
  have L: "create_loop env c ws ncpu ngpu i m st = (Inr (), st')"
    unfolding m using A(1) B(1) by (simp add: st2_def)
  have ar: "base + n + k * n = base + Suc k * n" by simp
  have aj: "\<And>j. base + n + j * n = base + Suc j * n" by simp
  have E: "events st' = events st
        @ concat (map (\<lambda>j. failed_round_events env cfg ws ncpu ngpu n
                              (base + j * n) (i + j)) [0..<Suc k])
        @ attempt_events env cfg ws ncpu ngpu n (base + Suc k * n)"
    unfolding B(4) e2 map_upt_Suc' [of _ k] aj by simp
  have Hp: "heap st' = heap st @ (map (worker_config cfg url0 ws) [0..<n] @ H)
              @ map (worker_config cfg url ws) [0..<n]"
    unfolding B(5) h2 by simp
  show ?case
    unfolding cfg_def [symmetric] base_def [symmetric]
    using L A(2) B(2,3) E Hp unfolding ar by blast
qed

lemma create_loop_exhausted:
  assumes "c < length (heap st)" and "py_range ws = Inr n"
    and "\<forall>j<m. attempt_result env (heap st ! c) ws ncpu ngpu (next_actor st + j * n) = Inr False"
  shows "\<exists>st'. create_loop env c ws ncpu ngpu i m st =
             (Inl (RuntimeError (''Failed to create workers after '' @ str_int (max_retries st)
                                  @ '' retries'')), st')
           \<and> (0 < m \<longrightarrow> procs st' = [])
           \<and> events st' = events st
                @ concat (map (\<lambda>j. failed_round_events env (heap st ! c) ws ncpu ngpu n
                                      (next_actor st + j * n) (i + j)) [0..<m])"
  using assms
proof (induction m arbitrary: i st)
  case 0
  show ?case by simp
next
  case (Suc m)
  define cfg where "cfg = heap st ! c"
  define base where "base = next_actor st"
  have "0 < Suc m" by simp
  with Suc.prems(3)
  have "attempt_result env (heap st ! c) ws ncpu ngpu (next_actor st + 0 * n) = Inr False"
    by blast
  then have f0: "attempt_result env (heap st ! c) ws ncpu ngpu (next_actor st) = Inr False"
    by simp
  from failed_round_state [OF Suc.prems(1,2) f0]
  obtain st1 url0 where A: "create_attempt env c ws ncpu ngpu st = (Inr False, st1)"
    "0 < n"
    "procs st1 = attempt_pool env cfg ws ncpu ngpu n base url0"
    "events st1 = events st @ attempt_events env cfg ws ncpu ngpu n base"
    "heap st1 = heap st @ map (worker_config cfg url0 ws) [0..<n]"
    "next_actor st1 = base + n" "max_retries st1 = max_retries st"
    by (auto simp: cfg_def base_def)
  define st2 where "st2 = emit (Sleep (2 ^ i)) (kill_workers st1)"
  have h2: "heap st2 = heap st @ map (worker_config cfg url0 ws) [0..<n]"
    by (simp add: st2_def emit_def kill_workers_def A(5))
  have c2: "c < length (heap st2)" "heap st2 ! c = cfg"
    using Suc.prems(1) by (simp_all add: h2 nth_append cfg_def)
  have n2: "next_actor st2 = base + n" by (simp add: st2_def emit_def kill_workers_def A(6))
  have r2: "max_retries st2 = max_retries st" by (simp add: st2_def emit_def kill_workers_def A(7))
  have p2: "procs st2 = []" by (simp add: st2_def emit_def kill_workers_def)
  have e2: "events st2 = events st @ failed_round_events env cfg ws ncpu ngpu n base i"
    by (simp add: st2_def emit_def kill_workers_def A(3,4) failed_round_events_def
          attempt_pool_def comp_def)
  have fj: "\<forall>j<m. attempt_result env (heap st2 ! c) ws ncpu ngpu (next_actor st2 + j * n) = Inr False"
  proof (intro allI impI)
    fix j assume "j < m"
    then have "Suc j < Suc m" by simp
    with Suc.prems(3)
    have "attempt_result env (heap st ! c) ws ncpu ngpu (next_actor st + Suc j * n) = Inr False"
      by blast
    then show "attempt_result env (heap st2 ! c) ws ncpu ngpu (next_actor st2 + j * n) = Inr False"
      by (simp add: c2 n2 cfg_def base_def add.assoc)
  qed
  from Suc.IH [OF c2(1) Suc.prems(2) fj, of "Suc i"]
  obtain st' where B:
    "create_loop env c ws ncpu ngpu (Suc i) m st2 =
       (Inl (RuntimeError (''Failed to create workers after '' @ str_int (max_retries st)
                                  @ '' retries'')), st')"
    "0 < m \<longrightarrow> procs st' = []"
    "events st' = events st2
        @ concat (map (\<lambda>j. failed_round_events env cfg ws ncpu ngpu n
                              (base + n + j * n) (Suc i + j)) [0..<m])"
    unfolding c2 n2 r2 by blast
  have L: "create_loop env c ws ncpu ngpu i (Suc m) st =
       (Inl (RuntimeError (''Failed to create workers after '' @ str_int (max_retries st)
                                  @ '' retries'')), st')"
    using A(1) B(1) by (simp add: st2_def)
  have P: "procs st' = []"
  proof (cases m)
    case 0
    with B(1) p2 show ?thesis by simp
  next
    case (Suc m')
    with B(2) show ?thesis by simp
  qed
  have aj: "\<And>j. base + n + j * n = base + Suc j * n" by simp
  have E: "events st' = events st
        @ concat (map (\<lambda>j. failed_round_events env cfg ws ncpu ngpu n
                              (base + j * n) (i + j)) [0..<Suc m])"
    unfolding B(3) e2 map_upt_Suc' [of _ m] aj by simp
  show ?case
    unfolding cfg_def [symmetric] base_def [symmetric]
    using L P E by blast
qed

lemma create_loop_success:
  assumes "c < length (heap st)" and "create_loop env c ws ncpu ngpu i m st = (Inr (), st')"
  shows "\<exists>n base url H es. py_range ws = Inr n \<and> 0 < n
           \<and> attempt_url env (heap st ! c) ncpu ngpu base = Inr url
           \<and> procs st' = attempt_pool env (heap st ! c) ws ncpu ngpu n base url
           \<and> events st' = es @ attempt_events env (heap st ! c) ws ncpu ngpu n base
           \<and> heap st' = heap st @ H @ map (worker_config (heap st ! c) url ws) [0..<n]"
  using assms
proof (induction m arbitrary: i st)
  case 0
  then show ?case by simp
next
  case (Suc m)
  obtain r st1 where CA: "create_attempt env c ws ncpu ngpu st = (r, st1)"
    by (cases "create_attempt env c ws ncpu ngpu st")
  from Suc.prems(2) CA obtain b where r: "r = Inr b"
    by (cases r) auto
  have ar: "attempt_result env (heap st ! c) ws ncpu ngpu (next_actor st) = Inr b"
    using create_attempt_fst [OF Suc.prems(1), of env ws ncpu ngpu] CA r by simp
  from attempt_result_InrD [OF ar] obtain n where n: "py_range ws = Inr n" by blast
  from failed_round_state [OF Suc.prems(1) n ar] CA r
  obtain url where A: "0 < n"
    "attempt_url env (heap st ! c) ncpu ngpu (next_actor st) = Inr url"
    "procs st1 = attempt_pool env (heap st ! c) ws ncpu ngpu n (next_actor st) url"
    "events st1 = events st @ attempt_events env (heap st ! c) ws ncpu ngpu n (next_actor st)"
    "heap st1 = heap st @ map (worker_config (heap st ! c) url ws) [0..<n]"
    by auto
  show ?case
  proof (cases b)
    case True
    with Suc.prems(2) CA r have "st' = st1" by simp
    moreover have "heap st1 = heap st @ [] @ map (worker_config (heap st ! c) url ws) [0..<n]"
      using A(5) by simp
    ultimately show ?thesis using n A(1-4) by blast
  next
    case False
    define st2 where "st2 = emit (Sleep (2 ^ i)) (kill_workers st1)"
    have h2: "heap st2 = heap st @ map (worker_config (heap st ! c) url ws) [0..<n]"
      by (simp add: st2_def emit_def kill_workers_def A(5))
    have c2: "c < length (heap st2)" "heap st2 ! c = heap st ! c"
      using Suc.prems(1) by (simp_all add: h2 nth_append)
    have L: "create_loop env c ws ncpu ngpu (Suc i) m st2 = (Inr (), st')"
      using Suc.prems(2) CA r False by (simp add: st2_def)
    from Suc.IH [OF c2(1) L] obtain n' base url' H es where B:
      "py_range ws = Inr n'" "0 < n'"
      "attempt_url env (heap st ! c) ncpu ngpu base = Inr url'"
      "procs st' = attempt_pool env (heap st ! c) ws ncpu ngpu n' base url'"
      "events st' = es @ attempt_events env (heap st ! c) ws ncpu ngpu n' base"
      "heap st' = heap st2 @ H @ map (worker_config (heap st ! c) url' ws) [0..<n']"
      unfolding c2 by blast
    have "heap st' = heap st @ (map (worker_config (heap st ! c) url ws) [0..<n] @ H)
            @ map (worker_config (heap st ! c) url' ws) [0..<n']"
      unfolding B(6) h2 by simp
    then show ?thesis using B(1-5) by blast
  qed
qed


lemma sleeps_of_append: "sleeps_of (xs @ ys) = sleeps_of xs @ sleeps_of ys"
  by (induction xs rule: sleeps_of.induct) auto

lemma sleeps_of_no_sleep: "\<forall>e\<in>set es. \<forall>d. e \<noteq> Sleep d \<Longrightarrow> sleeps_of es = []"
  by (induction es rule: sleeps_of.induct) auto

lemma sleeps_of_attempt_events: "sleeps_of (attempt_events env cfg ws ncpu ngpu n base) = []"
  by (rule sleeps_of_no_sleep) (auto simp: attempt_events_def split: sum.splits)

lemma sleeps_of_failed_round:
  "sleeps_of (failed_round_events env cfg ws ncpu ngpu n base i) = [2 ^ i]"
proof -
  have "sleeps_of (map (\<lambda>rank. Kill (base + rank)) [0..<n]) = []"
    by (rule sleeps_of_no_sleep) auto
  then show ?thesis
    by (simp add: failed_round_events_def sleeps_of_append sleeps_of_attempt_events)
qed

lemma sleeps_of_rounds:
  "sleeps_of (concat (map (\<lambda>j. failed_round_events env cfg ws ncpu ngpu n (f j) (i + j)) [0..<k]))
     = map (\<lambda>j. 2 ^ (i + j)) [0..<k]"
  by (induction k) (simp_all add: sleeps_of_append sleeps_of_failed_round)

lemma last_setup_append:
  "last_setup (xs @ ys) a = (case last_setup ys a of Some d \<Rightarrow> Some d | None \<Rightarrow> last_setup xs a)"
  by (induction xs) (auto split: option.splits)

lemma last_setup_calls:
  "r < n \<Longrightarrow>
   last_setup (map (\<lambda>rank. Call (base + rank) (SetupExperiment (f rank))) [0..<n]) (base + r)
     = Some (f r)"
proof (induction n)
  case 0
  then show ?case by simp
next
  case (Suc n)
  show ?case
  proof (cases "r = n")
    case True
    then show ?thesis by (simp add: last_setup_append)
  next
    case False
    with Suc.prems have "r < n" by simp
    from Suc.IH [OF this] False show ?thesis by (simp add: last_setup_append)
  qed
qed

lemma last_setup_attempt:
  assumes "attempt_url env cfg ncpu ngpu base = Inr url" and "r < n"
  shows "last_setup (es @ attempt_events env cfg ws ncpu ngpu n base) (base + r)
           = Some (worker_config cfg url ws r)"
proof -
  from assms(1) obtain ip where
    ip: "ray_get (exp_get_node_ip env (exp_new env base ncpu ngpu)) = Inr ip"
    by (auto simp: attempt_url_def split: sum.splits)
  have ev: "attempt_events env cfg ws ncpu ngpu n base =
      (map (\<lambda>i. Spawn (base + i)) [0..<n] @ [Call base GetNodeIp, Call base GetFreePort])
      @ map (\<lambda>rank. Call (base + rank) (SetupExperiment (worker_config cfg url ws rank))) [0..<n]"
    using assms ip by (simp add: attempt_events_def)
  show ?thesis
    unfolding ev last_setup_append [of es] last_setup_append [of "_ @ [_, _]"]
    by (simp add: last_setup_calls [OF assms(2)])
qed

section \<open>Pool creation: the whole method\<close>

lemma sigopt_process_config_heap:
  "length (heap (snd (sigopt_process_config env c st))) = length (heap st)"
  by (simp add: sigopt_process_config_def Let_def split: sum.splits bool.splits)

lemma process_config_heap:
  "process_config env c st = (r, st1) \<Longrightarrow> length (heap st1) = length (heap st)"
  using sigopt_process_config_heap [of env c st]
  by (auto simp: process_config_def split: variant.splits)

lemma pool_shape_world_size:
  "pool_shape cfg = Inr (ws, ncpu, ngpu) \<Longrightarrow> ws = world_size_of cfg"
  by (auto simp: pool_shape_def world_size_of_def Let_def split: sum.splits bool.splits)

lemma create_workers_loop:
  assumes "pool_shape (heap st ! c) = Inr (ws, ncpu, ngpu)"
    and "process_config env c st = (Inr (), st1)"
  shows "create_workers env c st
           = create_loop env c ws ncpu ngpu 0 (nat (1 + max_retries st1)) st1"
  using assms by (simp add: create_workers_def)

lemma new_events_append: "events st' = events st @ es \<Longrightarrow> new_events st st' = es"
  by (simp add: new_events_def)

lemma map_of_worker_config:
  "map_of (worker_config cfg url ws r) ''dist_url'' = Some (VStr url)"
  "map_of (worker_config cfg url ws r) ''world_size'' = Some ws"
  "map_of (worker_config cfg url ws r) ''distributed'' = Some (VBool True)"
  "map_of (worker_config cfg url ws r) ''rank'' = Some (VInt (int r))"
  by (simp_all add: worker_config_def map_of_setitem)

text \<open>The simulated cluster with two CPUs configured: the first attempt fails, the second succeeds.\<close>

lemma sim_shape: "pool_shape [(''num_cpus'', VInt 2)] = Inr (VInt 2, VInt 1, VInt 0)"
  by (simp add: pool_shape_def dict_get_def)

lemma upt_2: "[0..<2] = [0, 1]"
  by (simp add: numeral_2_eq_2)

lemma sim_attempts:
  "attempt_result sim_env [(''num_cpus'', VInt 2)] (VInt 2) (VInt 1) (VInt 0) 0 = Inr False"
  "attempt_result sim_env [(''num_cpus'', VInt 2)] (VInt 2) (VInt 1) (VInt 0) 2 = Inr True"
  by (simp_all add: attempt_result_def attempt_url_def setup_status_def sim_env_def
        check_for_failure.simps(2) Let_def upt_2)

lemma sim_process_config:
  "process_config env 0 (sim_trainable\<lparr>max_retries := r\<rparr>)
     = (Inr (), sim_trainable\<lparr>max_retries := r\<rparr>)"
  by (simp add: process_config_def sim_trainable_def)

lemma sim_state:
  "heap (sim_trainable\<lparr>max_retries := r\<rparr>) ! 0 = [(''num_cpus'', VInt 2)]"
  "0 < length (heap (sim_trainable\<lparr>max_retries := r\<rparr>))"
  "next_actor (sim_trainable\<lparr>max_retries := r\<rparr>) = 0"
  "max_retries (sim_trainable\<lparr>max_retries := r\<rparr>) = r"
  "trial_name (sim_trainable\<lparr>max_retries := r\<rparr>) = ''trial_7''"
  by (simp_all add: sim_trainable_def)

lemma sim_exhausted:
  "\<exists>st'. create_workers sim_env 0 (sim_trainable\<lparr>max_retries := 0\<rparr>) =
           (Inl (RuntimeError (''Failed to create workers after '' @ str_int 0 @ '' retries'')),
            st')"
proof -
  have F: "\<forall>j<1. attempt_result sim_env (heap (sim_trainable\<lparr>max_retries := 0\<rparr>) ! 0)
                    (VInt 2) (VInt 1) (VInt 0)
                    (next_actor (sim_trainable\<lparr>max_retries := 0\<rparr>) + j * 2) = Inr False"
    by (simp add: sim_trainable_def sim_attempts)
  have P: "pool_shape (heap (sim_trainable\<lparr>max_retries := 0\<rparr>) ! 0)
             = Inr (VInt 2, VInt 1, VInt 0)"
    by (simp add: sim_trainable_def sim_shape)
  have R: "py_range (VInt 2) = Inr 2" by simp
  have M: "nat (1 + max_retries (sim_trainable\<lparr>max_retries := 0\<rparr>)) = 1"
    "max_retries (sim_trainable\<lparr>max_retries := 0\<rparr>) = 0"
    by (simp_all add: sim_trainable_def)
  have W: "create_workers sim_env 0 (sim_trainable\<lparr>max_retries := 0\<rparr>)
             = create_loop sim_env 0 (VInt 2) (VInt 1) (VInt 0) 0 1
                 (sim_trainable\<lparr>max_retries := 0\<rparr>)"
    using create_workers_loop [OF P sim_process_config] by (simp only: M(1))
  from create_loop_exhausted [OF sim_state(2) R F, of 0]
  obtain st' where "create_loop sim_env 0 (VInt 2) (VInt 1) (VInt 0) 0 1
                 (sim_trainable\<lparr>max_retries := 0\<rparr>)
      = (Inl (RuntimeError (''Failed to create workers after ''
            @ str_int (max_retries (sim_trainable\<lparr>max_retries := 0\<rparr>)) @ '' retries'')), st')"
    by blast
  then show ?thesis unfolding W by (simp only: M(2)) blast
qed

lemma sim_created:
  "fst (create_workers sim_env 0 (sim_trainable\<lparr>max_retries := 3\<rparr>)) = Inr ()"
proof -
  have F: "\<forall>j<1. attempt_result sim_env (heap (sim_trainable\<lparr>max_retries := 3\<rparr>) ! 0)
                    (VInt 2) (VInt 1) (VInt 0)
                    (next_actor (sim_trainable\<lparr>max_retries := 3\<rparr>) + j * 2) = Inr False"
    by (simp add: sim_trainable_def sim_attempts)
  have T: "attempt_result sim_env (heap (sim_trainable\<lparr>max_retries := 3\<rparr>) ! 0)
                    (VInt 2) (VInt 1) (VInt 0)
                    (next_actor (sim_trainable\<lparr>max_retries := 3\<rparr>) + 1 * 2) = Inr True"
    using sim_attempts(2) by (simp add: sim_trainable_def numeral_2_eq_2)
  have P: "pool_shape (heap (sim_trainable\<lparr>max_retries := 3\<rparr>) ! 0)
             = Inr (VInt 2, VInt 1, VInt 0)"
    by (simp add: sim_trainable_def sim_shape)
  have R: "py_range (VInt 2) = Inr 2" by simp
  have K: "1 < nat (1 + max_retries (sim_trainable\<lparr>max_retries := 3\<rparr>))"
    by (simp add: sim_trainable_def)
  from create_loop_retries [OF sim_state(2) R F T K, of 0]
  show ?thesis
    unfolding create_workers_loop [OF P sim_process_config] by auto
qed

lemma sim_world_size: "py_range (world_size_of (heap (sim_trainable\<lparr>max_retries := 3\<rparr>) ! 0)) = Inr 2"
  by (simp add: world_size_of_def dict_get_def sim_trainable_def)

text \<open>
  The cluster whose first two actors raise in setup: the first attempt ends with the
  exception, which leaves \<^verbatim>\<open>_create_workers\<close> at once, the two processes still in the
  pool, nothing killed and no sleep, whatever the retry budget.
\<close>

lemma sim_raising_attempts:
  "attempt_result sim_raising_env [(''num_cpus'', VInt 2)] (VInt 2) (VInt 1) (VInt 0) 0
     = Inl RayTaskError"
  "attempt_result sim_raising_env [(''num_cpus'', VInt 2)] (VInt 2) (VInt 1) (VInt 0) 2
     = Inr True"
  by (simp_all add: attempt_result_def attempt_url_def setup_status_def sim_raising_env_def
        sim_env_def check_for_failure.simps(2) Let_def upt_2)

lemma sim_raising_create:
  "fst (create_workers sim_raising_env 0 (sim_trainable\<lparr>max_retries := int r\<rparr>))
     = Inl RayTaskError
   \<and> length (procs (snd (create_workers sim_raising_env 0
                           (sim_trainable\<lparr>max_retries := int r\<rparr>)))) = 2
   \<and> sleeps_of (new_events (sim_trainable\<lparr>max_retries := int r\<rparr>)
                  (snd (create_workers sim_raising_env 0
                          (sim_trainable\<lparr>max_retries := int r\<rparr>)))) = []"
proof -
  define S where "S = sim_trainable\<lparr>max_retries := int r\<rparr>"
  define cfg where "cfg = [(''num_cpus'', VInt 2)]"
  have c: "0 < length (heap S)" and h: "heap S ! 0 = cfg" and b: "next_actor S = 0"
    and m: "nat (1 + max_retries S) = Suc r"
    by (simp_all add: S_def cfg_def sim_trainable_def)
  have P: "pool_shape (heap S ! 0) = Inr (VInt 2, VInt 1, VInt 0)"
    by (simp add: h cfg_def sim_shape)
  have R: "py_range (VInt 2) = Inr 2" by simp
  obtain url where U: "attempt_url sim_raising_env (heap S ! 0) (VInt 1) (VInt 0) (next_actor S)
                         = Inr url"
    by (simp add: attempt_url_def sim_raising_env_def sim_env_def)
  have St: "setup_status sim_raising_env (heap S ! 0) (VInt 2) (VInt 1) (VInt 0) 2
              (next_actor S) url = [TaskFailed, TaskFailed]"
    by (simp add: setup_status_def b sim_raising_env_def sim_env_def upt_2)
  have Cf: "check_for_failure (ray_wait sim_raising_env) [TaskFailed, TaskFailed :: unit remote]
              = Inl RayTaskError"
    by (simp add: check_for_failure.simps(2) sim_raising_env_def sim_env_def)
  define st1 where "st1 = snd (create_attempt sim_raising_env 0 (VInt 2) (VInt 1) (VInt 0) S)"
  have A: "create_attempt sim_raising_env 0 (VInt 2) (VInt 1) (VInt 0) S = (Inl RayTaskError, st1)"
    "procs st1 = attempt_pool sim_raising_env (heap S ! 0) (VInt 2) (VInt 1) (VInt 0) 2
                   (next_actor S) url"
    "events st1 = events S @ attempt_events sim_raising_env (heap S ! 0) (VInt 2) (VInt 1)
                              (VInt 0) 2 (next_actor S)"
    using create_attempt_eq [OF c R _ U] unfolding St Cf st1_def by simp_all
  have W: "create_workers sim_raising_env 0 S = (Inl RayTaskError, st1)"
    unfolding create_workers_loop [OF P sim_process_config [of sim_raising_env "int r",
                                                             folded S_def]] m
    using A(1) by simp
  have L: "length (procs st1) = 2" by (simp add: A(2) attempt_pool_def)
  have E: "sleeps_of (new_events S st1) = []"
    using new_events_append [OF A(3)] by (simp add: sleeps_of_attempt_events)
  show ?thesis unfolding S_def [symmetric] W using L E by simp
qed

text \<open>
  C1, as stated, fails: an attempt can also fail by an exception (a setup call that
  raises, a coordinator that is dead when its address is asked), and then nothing is
  retried. Here the first attempt fails with the exception of the setup calls and a
  second attempt would succeed, yet \<^verbatim>\<open>_create_workers\<close> raises after the first, with no
  sleep and with the pool of the failed attempt left in place.
\<close>

theorem create_workers_retries_counterexample:
  "attempt_result sim_raising_env [(''num_cpus'', VInt 2)] (VInt 2) (VInt 1) (VInt 0) 0
     = Inl RayTaskError
   \<and> attempt_result sim_raising_env [(''num_cpus'', VInt 2)] (VInt 2) (VInt 1) (VInt 0) 2
       = Inr True
   \<and> max_retries (sim_trainable\<lparr>max_retries := 3\<rparr>) = 3
   \<and> fst (create_workers sim_raising_env 0 (sim_trainable\<lparr>max_retries := 3\<rparr>))
       = Inl RayTaskError
   \<and> length (procs (snd (create_workers sim_raising_env 0
                           (sim_trainable\<lparr>max_retries := 3\<rparr>)))) = 2
   \<and> sleeps_of (new_events (sim_trainable\<lparr>max_retries := 3\<rparr>)
                  (snd (create_workers sim_raising_env 0
                          (sim_trainable\<lparr>max_retries := 3\<rparr>)))) = []"
  using sim_raising_attempts sim_raising_create [of 3] by (simp add: sim_trainable_def)

text \<open>
  C1, amended. With \<open>max_retries = r\<close> and \<open>k < r + 1\<close>: when the first \<open>k\<close> attempts fail the
  failure check (the check of the setup calls answers False: a setup call failed at the
  transport level and the check met no exception) and attempt \<open>k + 1\<close> passes it,
  \<^verbatim>\<open>_create_workers\<close> returns normally.
  What it did is exactly \<open>k\<close> failed rounds followed by the successful attempt, a failed
  round being the attempt, the kill of every process of its pool and then the sleep of
  \<open>2 ^ i\<close> seconds; so the sleeps are \<open>1, 2, 4, ..., 2 ^ (k - 1)\<close>, each pool is destroyed
  before the next attempt starts, and the final pool has as many processes as the world
  size says.
\<close>

theorem create_workers_retries:
  assumes "c < length (heap st)"
    and "pool_shape (heap st ! c) = Inr (ws, ncpu, ngpu)"
    and "process_config env c st = (Inr (), st1)"
    and "py_range ws = Inr n"
    and "max_retries st1 = int r" and "k < r + 1"
    and "\<forall>j<k. attempt_result env (heap st1 ! c) ws ncpu ngpu (next_actor st1 + j * n) = Inr False"
    and "attempt_result env (heap st1 ! c) ws ncpu ngpu (next_actor st1 + k * n) = Inr True"
  shows "\<exists>st'. create_workers env c st = (Inr (), st')
           \<and> new_events st1 st' =
               concat (map (\<lambda>j. failed_round_events env (heap st1 ! c) ws ncpu ngpu n
                                   (next_actor st1 + j * n) j) [0..<k])
               @ attempt_events env (heap st1 ! c) ws ncpu ngpu n (next_actor st1 + k * n)
           \<and> sleeps_of (new_events st1 st') = map (\<lambda>i. 2 ^ i) [0..<k]
           \<and> length (procs st') = n \<and> 0 < n
           \<and> py_range (world_size_of (heap st ! c)) = Inr n"
proof -
  have c1: "c < length (heap st1)" using process_config_heap [OF assms(3)] assms(1) by simp
  have km: "k < nat (1 + max_retries st1)" using assms(5,6) by simp
  from create_loop_retries [OF c1 assms(4,7,8) km, of 0]
  obtain st' url where L:
    "create_loop env c ws ncpu ngpu 0 (nat (1 + max_retries st1)) st1 = (Inr (), st')"
    "0 < n"
    "procs st' = attempt_pool env (heap st1 ! c) ws ncpu ngpu n (next_actor st1 + k * n) url"
    "events st' = events st1
        @ concat (map (\<lambda>j. failed_round_events env (heap st1 ! c) ws ncpu ngpu n
                              (next_actor st1 + j * n) (0 + j)) [0..<k])
        @ attempt_events env (heap st1 ! c) ws ncpu ngpu n (next_actor st1 + k * n)"
    by blast
  have W: "create_workers env c st = (Inr (), st')"
    using create_workers_loop [OF assms(2,3)] L(1) by simp
  have N: "new_events st1 st' =
               concat (map (\<lambda>j. failed_round_events env (heap st1 ! c) ws ncpu ngpu n
                                   (next_actor st1 + j * n) (0 + j)) [0..<k])
               @ attempt_events env (heap st1 ! c) ws ncpu ngpu n (next_actor st1 + k * n)"
    using new_events_append [OF L(4)] .
  have S: "sleeps_of (new_events st1 st') = map (\<lambda>j. 2 ^ (0 + j)) [0..<k]"
    unfolding N sleeps_of_append sleeps_of_rounds sleeps_of_attempt_events by simp
  have P: "length (procs st') = n" by (simp add: L(3) attempt_pool_def)
  have R: "py_range (world_size_of (heap st ! c)) = Inr n"
    using pool_shape_world_size [OF assms(2)] assms(4) by simp
  show ?thesis using W N S P L(2) R by simp
qed

theorem create_workers_retries_witness:
  "attempt_result sim_env [(''num_cpus'', VInt 2)] (VInt 2) (VInt 1) (VInt 0) 0 = Inr False
   \<and> attempt_result sim_env [(''num_cpus'', VInt 2)] (VInt 2) (VInt 1) (VInt 0) 2 = Inr True
   \<and> (\<exists>st'. create_workers sim_env 0 (sim_trainable\<lparr>max_retries := 3\<rparr>) = (Inr (), st')
         \<and> sleeps_of (new_events (sim_trainable\<lparr>max_retries := 3\<rparr>) st') = [1]
         \<and> length (procs st') = 2)"
proof -
  have F: "\<forall>j<1. attempt_result sim_env (heap (sim_trainable\<lparr>max_retries := 3\<rparr>) ! 0)
                    (VInt 2) (VInt 1) (VInt 0)
                    (next_actor (sim_trainable\<lparr>max_retries := 3\<rparr>) + j * 2) = Inr False"
    by (simp add: sim_trainable_def sim_attempts)
  have T: "attempt_result sim_env (heap (sim_trainable\<lparr>max_retries := 3\<rparr>) ! 0)
                    (VInt 2) (VInt 1) (VInt 0)
                    (next_actor (sim_trainable\<lparr>max_retries := 3\<rparr>) + 1 * 2) = Inr True"
    using sim_attempts(2) by (simp add: sim_trainable_def numeral_2_eq_2)
  have P: "pool_shape (heap (sim_trainable\<lparr>max_retries := 3\<rparr>) ! 0)
             = Inr (VInt 2, VInt 1, VInt 0)"
    by (simp add: sim_trainable_def sim_shape)
  have R: "py_range (VInt 2) = Inr 2" by simp
  have M: "max_retries (sim_trainable\<lparr>max_retries := 3\<rparr>) = int 3" by (simp add: sim_trainable_def)
  have K: "(1::nat) < 3 + 1" by simp
  show ?thesis
    using create_workers_retries [OF sim_state(2) P sim_process_config R M K F T] sim_attempts
    by auto
qed

text \<open>
  C2, as stated, fails in two ways. The message of the error names the retry count but
  not the trial: with \<open>max_retries = 0\<close> and a setup that fails the check, trial \<open>trial_7\<close>
  gets the message \<open>Failed to create workers after 0 retries\<close>. And when the one attempt
  fails by an exception instead (a setup that raises), that exception is what
  \<^verbatim>\<open>_create_workers\<close> raises, and the two processes of the attempt stay in the pool.
\<close>

theorem create_workers_exhausted_counterexample:
  "fst (create_workers sim_env 0 (sim_trainable\<lparr>max_retries := 0\<rparr>))
     = Inl (RuntimeError ''Failed to create workers after 0 retries'')
   \<and> trial_name (sim_trainable\<lparr>max_retries := 0\<rparr>) = ''trial_7''
   \<and> \<not> str_contains ''Failed to create workers after 0 retries'' ''trial_7''
   \<and> attempt_result sim_raising_env [(''num_cpus'', VInt 2)] (VInt 2) (VInt 1) (VInt 0) 0
       = Inl RayTaskError
   \<and> fst (create_workers sim_raising_env 0 (sim_trainable\<lparr>max_retries := 0\<rparr>))
       = Inl RayTaskError
   \<and> length (procs (snd (create_workers sim_raising_env 0
                           (sim_trainable\<lparr>max_retries := 0\<rparr>)))) = 2"
proof -
  have "str_int 0 = ''0''" by (simp add: str_int_def str_nat.simps)
  with sim_exhausted
  have "fst (create_workers sim_env 0 (sim_trainable\<lparr>max_retries := 0\<rparr>))
          = Inl (RuntimeError ''Failed to create workers after 0 retries'')"
    by auto
  then show ?thesis
    using sim_raising_attempts(1) sim_raising_create [of 0] by (simp add: sim_trainable_def)
qed

text \<open>
  C2, amended. With \<open>max_retries = r \<ge> 0\<close>, when all \<open>r + 1\<close> attempts fail the failure
  check (each time the check of the setup calls answers False: a setup call failed at
  the transport level and the check met no exception), \<^verbatim>\<open>_create_workers\<close> raises
  RuntimeError with the message
  \<open>Failed to create workers after r retries\<close>, and it leaves an empty pool: the trace is
  \<open>r + 1\<close> failed rounds, each of which kills every process it created.
\<close>

theorem create_workers_exhausted:
  assumes "c < length (heap st)"
    and "pool_shape (heap st ! c) = Inr (ws, ncpu, ngpu)"
    and "process_config env c st = (Inr (), st1)"
    and "py_range ws = Inr n"
    and "max_retries st1 = int r"
    and "\<forall>j<r + 1. attempt_result env (heap st1 ! c) ws ncpu ngpu (next_actor st1 + j * n)
                      = Inr False"
  shows "\<exists>st'. create_workers env c st =
             (Inl (RuntimeError (''Failed to create workers after '' @ str_int (int r)
                                  @ '' retries'')), st')
           \<and> procs st' = []
           \<and> new_events st1 st' =
               concat (map (\<lambda>j. failed_round_events env (heap st1 ! c) ws ncpu ngpu n
                                   (next_actor st1 + j * n) j) [0..<r + 1])"
proof -
  have c1: "c < length (heap st1)" using process_config_heap [OF assms(3)] assms(1) by simp
  have m: "nat (1 + max_retries st1) = r + 1" using assms(5) by simp
  from create_loop_exhausted [OF c1 assms(4), of "r + 1" env ncpu ngpu 0] assms(6)
  obtain st' where L:
    "create_loop env c ws ncpu ngpu 0 (r + 1) st1 =
       (Inl (RuntimeError (''Failed to create workers after '' @ str_int (max_retries st1)
                            @ '' retries'')), st')"
    "procs st' = []"
    "events st' = events st1
        @ concat (map (\<lambda>j. failed_round_events env (heap st1 ! c) ws ncpu ngpu n
                              (next_actor st1 + j * n) (0 + j)) [0..<r + 1])"
    by auto
  have "create_workers env c st = create_loop env c ws ncpu ngpu 0 (r + 1) st1"
    using create_workers_loop [OF assms(2,3)] unfolding m .
  then have W: "create_workers env c st =
       (Inl (RuntimeError (''Failed to create workers after '' @ str_int (int r)
                            @ '' retries'')), st')"
    using L(1) by (simp only: assms(5))
  show ?thesis using W L(2) new_events_append [OF L(3)] by simp
qed

theorem create_workers_exhausted_witness:
  "attempt_result sim_env [(''num_cpus'', VInt 2)] (VInt 2) (VInt 1) (VInt 0) 0 = Inr False
   \<and> (\<exists>st'. create_workers sim_env 0 (sim_trainable\<lparr>max_retries := 0\<rparr>) =
               (Inl (RuntimeError ''Failed to create workers after 0 retries''), st')
         \<and> procs st' = [])"
proof -
  have F: "\<forall>j<0 + 1. attempt_result sim_env (heap (sim_trainable\<lparr>max_retries := 0\<rparr>) ! 0)
                    (VInt 2) (VInt 1) (VInt 0)
                    (next_actor (sim_trainable\<lparr>max_retries := 0\<rparr>) + j * 2) = Inr False"
    by (simp add: sim_trainable_def sim_attempts)
  have P: "pool_shape (heap (sim_trainable\<lparr>max_retries := 0\<rparr>) ! 0)
             = Inr (VInt 2, VInt 1, VInt 0)"
    by (simp add: sim_trainable_def sim_shape)
  have R: "py_range (VInt 2) = Inr 2" by simp
  have M: "max_retries (sim_trainable\<lparr>max_retries := 0\<rparr>) = int 0"
    by (simp add: sim_trainable_def)
  have S: "str_int 0 = ''0''" by (simp add: str_int_def str_nat.simps)
  show ?thesis
    using create_workers_exhausted [OF sim_state(2) P sim_process_config R M F] sim_attempts(1) S
    by auto
qed

text \<open>
  C5. When \<^verbatim>\<open>_create_workers\<close> returns normally the pool has exactly world-size
  processes, the world size being \<^verbatim>\<open>num_gpus\<close> when that is positive and \<^verbatim>\<open>num_cpus\<close>
  (default 1) otherwise; and the configuration last sent to the process at pool index
  \<open>i\<close> has the one rendezvous URL of the pool, that world size, \<^verbatim>\<open>distributed = True\<close>
  and \<^verbatim>\<open>rank = i\<close>.
\<close>

theorem create_workers_pool:
  assumes "c < length (heap st)" and "create_workers env c st = (Inr (), st')"
  shows "\<exists>n url. py_range (world_size_of (heap st ! c)) = Inr n \<and> 0 < n
           \<and> length (procs st') = n
           \<and> (\<forall>i<n. \<exists>sent. last_setup (events st') (actor_id (procs st' ! i)) = Some sent
                  \<and> map_of sent ''dist_url'' = Some (VStr url)
                  \<and> map_of sent ''world_size'' = Some (world_size_of (heap st ! c))
                  \<and> map_of sent ''distributed'' = Some (VBool True)
                  \<and> map_of sent ''rank'' = Some (VInt (int i)))"
proof -
  from assms(2) obtain ws ncpu ngpu where ps: "pool_shape (heap st ! c) = Inr (ws, ncpu, ngpu)"
    by (auto simp: create_workers_def split: sum.splits)
  obtain r1 st1 where pc: "process_config env c st = (r1, st1)"
    by (cases "process_config env c st")
  from assms(2) ps pc have r1: "r1 = Inr ()"
    by (auto simp: create_workers_def split: sum.splits)
  have c1: "c < length (heap st1)" using process_config_heap [OF pc] assms(1) by simp
  have L: "create_loop env c ws ncpu ngpu 0 (nat (1 + max_retries st1)) st1 = (Inr (), st')"
    using create_workers_loop [OF ps pc [unfolded r1]] assms(2) by simp
  from create_loop_success [OF c1 L] obtain n base url es where S:
    "py_range ws = Inr n" "0 < n"
    "attempt_url env (heap st1 ! c) ncpu ngpu base = Inr url"
    "procs st' = attempt_pool env (heap st1 ! c) ws ncpu ngpu n base url"
    "events st' = es @ attempt_events env (heap st1 ! c) ws ncpu ngpu n base"
    by blast
  have ws: "ws = world_size_of (heap st ! c)" using pool_shape_world_size [OF ps] .
  have "\<forall>i<n. \<exists>sent. last_setup (events st') (actor_id (procs st' ! i)) = Some sent
                  \<and> map_of sent ''dist_url'' = Some (VStr url)
                  \<and> map_of sent ''world_size'' = Some ws
                  \<and> map_of sent ''distributed'' = Some (VBool True)
                  \<and> map_of sent ''rank'' = Some (VInt (int i))"
  proof (intro allI impI)
    fix i assume i: "i < n"
    have id: "actor_id (procs st' ! i) = base + i" using i by (simp add: S(4) attempt_pool_def)
    have "last_setup (events st') (actor_id (procs st' ! i))
            = Some (worker_config (heap st1 ! c) url ws i)"
      unfolding id S(5) using last_setup_attempt [OF S(3) i] .
    then show "\<exists>sent. last_setup (events st') (actor_id (procs st' ! i)) = Some sent
                  \<and> map_of sent ''dist_url'' = Some (VStr url)
                  \<and> map_of sent ''world_size'' = Some ws
                  \<and> map_of sent ''distributed'' = Some (VBool True)
                  \<and> map_of sent ''rank'' = Some (VInt (int i))"
      by (simp add: map_of_worker_config)
  qed
  moreover have "length (procs st') = n" by (simp add: S(4) attempt_pool_def)
  ultimately show ?thesis using S(1,2) unfolding ws by blast
qed

theorem create_workers_pool_witness:
  "fst (create_workers sim_env 0 (sim_trainable\<lparr>max_retries := 3\<rparr>)) = Inr ()
   \<and> length (procs (snd (create_workers sim_env 0 (sim_trainable\<lparr>max_retries := 3\<rparr>)))) = 2
   \<and> (\<exists>sent. last_setup (events (snd (create_workers sim_env 0 (sim_trainable\<lparr>max_retries := 3\<rparr>))))
                 (actor_id (procs (snd (create_workers sim_env 0
                                          (sim_trainable\<lparr>max_retries := 3\<rparr>))) ! 1))
               = Some sent
         \<and> map_of sent ''world_size'' = Some (VInt 2)
         \<and> map_of sent ''distributed'' = Some (VBool True)
         \<and> map_of sent ''rank'' = Some (VInt 1))"
proof -
  define st' where "st' = snd (create_workers sim_env 0 (sim_trainable\<lparr>max_retries := 3\<rparr>))"
  have C: "create_workers sim_env 0 (sim_trainable\<lparr>max_retries := 3\<rparr>) = (Inr (), st')"
    using sim_created by (simp add: st'_def prod_eq_iff)
  have W: "world_size_of (heap (sim_trainable\<lparr>max_retries := 3\<rparr>) ! 0) = VInt 2"
    by (simp add: world_size_of_def dict_get_def sim_trainable_def)
  from create_workers_pool [OF sim_state(2) C] obtain n url where
    N: "py_range (world_size_of (heap (sim_trainable\<lparr>max_retries := 3\<rparr>) ! 0)) = Inr n"
    "length (procs st') = n"
    "\<forall>i<n. \<exists>sent. last_setup (events st') (actor_id (procs st' ! i)) = Some sent
                  \<and> map_of sent ''dist_url'' = Some (VStr url)
                  \<and> map_of sent ''world_size''
                       = Some (world_size_of (heap (sim_trainable\<lparr>max_retries := 3\<rparr>) ! 0))
                  \<and> map_of sent ''distributed'' = Some (VBool True)
                  \<and> map_of sent ''rank'' = Some (VInt (int i))"
    by blast
  from N(1) have n: "n = 2" unfolding sim_world_size by simp
  have "(1::nat) < n" unfolding n by simp
  with N(3) obtain sent where
    "last_setup (events st') (actor_id (procs st' ! 1)) = Some sent"
    "map_of sent ''world_size'' = Some (VInt 2)"
    "map_of sent ''distributed'' = Some (VBool True)"
    "map_of sent ''rank'' = Some (VInt 1)"
    unfolding W by fastforce
  then show ?thesis
    unfolding st'_def [symmetric] using sim_created N(2) n by (auto simp: st'_def)
qed



end
